theory Spec2Isabelle
  imports Main "HOL-Library.Sublist" "HOL-Library.Word"
begin

section \<open>JavaScript strings and values\<close>

text \<open>
  A JavaScript string is modelled as a \<^typ>\<open>string\<close>: a list of characters, compared
  with \<open>===\<close> as lists. The model's alphabet is the 8-bit one of \<^typ>\<open>char\<close>; the
  code never inspects a character beyond the space and the white space that
  \<open>String.prototype.trim\<close> removes.
\<close>

definition truthy :: "string \<Rightarrow> bool" where
  \<comment> \<open>a string in a boolean position: every string but the empty one\<close>
  "truthy s = (s \<noteq> [])"

definition startsWith :: "string \<Rightarrow> string \<Rightarrow> bool" where
  "startsWith s p = prefix p s"

definition endsWith :: "string \<Rightarrow> string \<Rightarrow> bool" where
  "endsWith s p = (length p \<le> length s \<and> drop (length s - length p) s = p)"

definition slice_from :: "string \<Rightarrow> nat \<Rightarrow> string" where
  \<comment> \<open>\<open>s.slice(n)\<close> for a start index \<open>n \<ge> 0\<close>\<close>
  "slice_from s n = drop n s"

fun str_includes :: "string \<Rightarrow> string \<Rightarrow> bool" where
  "str_includes [] sub = (sub = [])"
| "str_includes (c # cs) sub = (prefix sub (c # cs) \<or> str_includes cs sub)"

definition js_whitespace :: "char \<Rightarrow> bool" where
  \<comment> \<open>TAB, LF, VT, FF, CR, SP and NBSP: the white space and line terminators below 256\<close>
  "js_whitespace c = (of_char c \<in> {9, 10, 11, 12, 13, 32, 160 :: nat})"

definition trim :: "string \<Rightarrow> string" where
  "trim s = rev (dropWhile js_whitespace (rev (dropWhile js_whitespace s)))"

record js_error =
  name :: string
  message :: string

text \<open>
  An object literal read with a computed key, \<open>obj[key]\<close>. The literal's own
  properties are strings; a key that names a property of \<open>Object.prototype\<close> and is
  not an own property reads the inherited value, a function or (for \<open>__proto__\<close>) the
  prototype object; any other key reads \<open>undefined\<close>. Inherited values are truthy.
  \<open>js_String\<close> is the text such a value becomes where a string is expected.
\<close>

datatype property_value =
    OwnString string
  | InheritedFunction string
  | InheritedPrototype
  | Undefined

definition Object_prototype_functions :: "string list" where
  "Object_prototype_functions =
    [''constructor'', ''hasOwnProperty'', ''isPrototypeOf'', ''propertyIsEnumerable'',
     ''toLocaleString'', ''toString'', ''valueOf'', ''__defineGetter__'', ''__defineSetter__'',
     ''__lookupGetter__'', ''__lookupSetter__'']"

definition object_get :: "(string \<times> string) list \<Rightarrow> string \<Rightarrow> property_value" where
  "object_get obj key =
    (case map_of obj key of
       Some v \<Rightarrow> OwnString v
     | None \<Rightarrow>
         if key = ''__proto__'' then InheritedPrototype
         else if key \<in> set Object_prototype_functions then InheritedFunction key
         else Undefined)"

fun js_String :: "property_value \<Rightarrow> string" where
  "js_String (OwnString v) = v"
| "js_String (InheritedFunction key) =
     ''function '' @ (if key = ''constructor'' then ''Object'' else key) @ ''() { [native code] }''"
| "js_String InheritedPrototype = ''[object Object]''"
| "js_String Undefined = ''undefined''"

section \<open>The cloud recognizer: \<open>OpenAIVoiceInputService\<close>\<close>

text \<open>
  A \<open>Blob\<close> as the service reads it: its size in bytes, its MIME type and the bytes
  that \<open>slice(0, 32)\<close> yields.
\<close>

record blob =
  blob_size :: nat
  blob_type :: string
  blob_head :: "8 word list"

definition OPENAI_LANGUAGE_MAP :: "(string \<times> string) list" where
  "OPENAI_LANGUAGE_MAP =
    [(''en-US'', ''en''), (''en-GB'', ''en''), (''es'', ''es''), (''fr'', ''fr''),
     (''de'', ''de''), (''it'', ''it''), (''pt'', ''pt''), (''ru'', ''ru''),
     (''ja'', ''ja''), (''ko'', ''ko''), (''zh'', ''zh''), (''zh-TW'', ''zh''),
     (''nl'', ''nl''), (''pl'', ''pl''), (''hi'', ''hi''), (''ro'', ''ro'')]"

text \<open>
  The request \<open>tryOpenAITranscription\<close> posts: the chunk, the file name's extension,
  the model, the language code when there is one, the response format and the bearer
  token.
\<close>

record api_request =
  req_file :: blob
  req_extension :: string
  req_model :: string
  req_language :: "string option"
  req_response_format :: string
  req_bearer :: string

text \<open>
  What the host answers to that request: \<open>fetch\<close> rejects, or a response with its
  \<open>ok\<close> flag, status and body text.
\<close>

datatype api_response = FetchRejects js_error | HttpResponse bool nat string

text \<open>
  What a service does to the world outside its own fields: it calls the
  \<open>onTranscription\<close> callback it was started with, posts a request to the
  transcription API, sets a timer that will run \<open>createFreshRecognition\<close>, or starts a
  native recognizer.
\<close>

datatype service_effect =
    OnTranscription string bool
  | ApiRequest api_request
  | SetTimeout nat
  | RecognitionStart

record openai_service =
  o_mediaRecorder :: bool
  o_audioStream :: bool
  o_audioContext :: bool
  o_isCurrentlyRecording :: bool
  o_onTranscriptionCallback :: bool
  o_finalTranscription :: string
  o_processedTranscriptions :: "string set"
  o_language :: string
  o_apiKey :: string
  o_chunkCounter :: nat

definition new_OpenAIVoiceInputService :: "string \<Rightarrow> openai_service" where
  "new_OpenAIVoiceInputService apiKey =
    \<lparr> o_mediaRecorder = False, o_audioStream = False, o_audioContext = False,
      o_isCurrentlyRecording = False, o_onTranscriptionCallback = False,
      o_finalTranscription = [], o_processedTranscriptions = {},
      o_language = ''auto'', o_apiKey = apiKey, o_chunkCounter = 0 \<rparr>"

definition o_setLanguage :: "string \<Rightarrow> openai_service \<Rightarrow> openai_service" where
  "o_setLanguage lang s = s\<lparr>o_language := lang\<rparr>"

definition o_getLanguage :: "openai_service \<Rightarrow> string" where
  "o_getLanguage s = o_language s"

text \<open>
  \<open>getOpenAILanguageCode\<close>: \<open>OPENAI_LANGUAGE_MAP[this.language] || undefined\<close>. The
  result is given as the text the request carries in its \<open>language\<close> field.
\<close>

definition getOpenAILanguageCode :: "openai_service \<Rightarrow> string option" where
  "getOpenAILanguageCode s =
    (if o_language s = ''auto'' then None
     else case object_get OPENAI_LANGUAGE_MAP (o_language s) of
            OwnString code \<Rightarrow> if truthy code then Some code else None
          | Undefined \<Rightarrow> None
          | inherited \<Rightarrow> Some (js_String inherited))"

text \<open>
  The host the services run on: which recognizer constructors \<open>window\<close> has, the
  configured API key, and how the calls into the platform end (\<open>None\<close>: normally;
  \<open>Some e\<close>: they throw or reject with \<open>e\<close>).
\<close>

record host =
  webkitSpeechRecognition :: bool
  SpeechRecognition :: bool
  VITE_OPENAI_API_KEY :: "string option"
  navigator_language :: string
  getUserMedia :: "js_error option"
  audioSetup :: "js_error option"
  recognitionStart :: "js_error option"

text \<open>
  \<open>startRecording\<close> of the cloud recognizer. The fields are reset before the \<open>try\<close>;
  whatever is thrown inside it is replaced by \<open>Error('Failed to access microphone')\<close>.
  A method's result is the service after it, what it did, and what it threw.
\<close>

definition o_startRecording ::
  "host \<Rightarrow> openai_service \<Rightarrow> openai_service \<times> service_effect list \<times> js_error option" where
  "o_startRecording h s =
    (let s1 = s\<lparr>o_onTranscriptionCallback := True, o_finalTranscription := [],
                 o_processedTranscriptions := {}, o_chunkCounter := 0\<rparr>
     in case getUserMedia h of
          Some e \<Rightarrow> (s1, [], Some \<lparr>name = ''Error'', message = ''Failed to access microphone''\<rparr>)
        | None \<Rightarrow>
            (case audioSetup h of
               Some e \<Rightarrow> (s1\<lparr>o_audioStream := True\<rparr>, [],
                          Some \<lparr>name = ''Error'', message = ''Failed to access microphone''\<rparr>)
             | None \<Rightarrow> (s1\<lparr>o_audioStream := True, o_audioContext := True,
                            o_mediaRecorder := True, o_isCurrentlyRecording := True\<rparr>, [], None)))"

text \<open>
  \<open>tryOpenAITranscription\<close>: one request, then the response. A rejected \<open>fetch\<close> is
  caught and logged; a response that is not \<open>ok\<close> returns early; a transcript already
  in \<open>processedTranscriptions\<close> returns early; otherwise the transcript is recorded,
  handed to the callback as an interim segment and kept as \<open>finalTranscription\<close>.
\<close>

definition tryOpenAITranscription ::
  "openai_service \<Rightarrow> blob \<Rightarrow> api_response \<Rightarrow> openai_service \<times> service_effect list \<times> js_error option" where
  "tryOpenAITranscription s audioBlob resp =
    (let extension = (if str_includes (blob_type audioBlob) ''mp4'' then ''mp4''
                      else if str_includes (blob_type audioBlob) ''wav'' then ''wav''
                      else ''webm'');
         request = \<lparr> req_file = audioBlob, req_extension = extension,
                     req_model = ''whisper-1'', req_language = getOpenAILanguageCode s,
                     req_response_format = ''text'', req_bearer = o_apiKey s \<rparr>
     in case resp of
          FetchRejects e \<Rightarrow> (s, [ApiRequest request], None)
        | HttpResponse ok status transcript \<Rightarrow>
            if \<not> ok then (s, [ApiRequest request], None)
            else if truthy transcript \<and> truthy (trim transcript) then
              (if transcript \<in> o_processedTranscriptions s then (s, [ApiRequest request], None)
               else
                 (s\<lparr>o_processedTranscriptions := insert transcript (o_processedTranscriptions s),
                    o_finalTranscription := transcript\<rparr>,
                  [ApiRequest request] @
                  (if o_onTranscriptionCallback s then [OnTranscription transcript False] else []),
                  None))
            else (s, [ApiRequest request], None))"

text \<open>
  \<open>transcribeAudio\<close>: the counter is incremented first; a chunk under 10000 bytes or
  with a MIME type that names none of webm, mp4 and wav is dropped; only when the
  counter is 1 is the chunk passed on. (The chunk is \<open>event.data\<close> of the recorder, so
  it is never null.) The \<open>catch\<close> around the body logs and returns.
\<close>

definition mime_supported :: "string \<Rightarrow> bool" where
  "mime_supported t = (truthy t \<and> (str_includes t ''webm'' \<or> str_includes t ''mp4'' \<or> str_includes t ''wav''))"

definition transcribeAudio ::
  "openai_service \<Rightarrow> blob \<Rightarrow> api_response \<Rightarrow> openai_service \<times> service_effect list \<times> js_error option" where
  "transcribeAudio s audioBlob resp =
    (let s1 = s\<lparr>o_chunkCounter := o_chunkCounter s + 1\<rparr>
     in if blob_size audioBlob < 10000 then (s1, [], None)
        else if \<not> mime_supported (blob_type audioBlob) then (s1, [], None)
        else if o_chunkCounter s1 = 1 then tryOpenAITranscription s1 audioBlob resp
        else (s1, [], None))"

definition sendAudioChunk ::
  "openai_service \<Rightarrow> blob \<Rightarrow> api_response \<Rightarrow> openai_service \<times> service_effect list \<times> js_error option" where
  "sendAudioChunk s audioBlob resp = transcribeAudio s audioBlob resp"

text \<open>
  \<open>validateAudioBlob\<close>: the check of the container signature, on the first 32 bytes:
  the WebM magic at offset 0, or \<open>ftyp\<close> at offset 4. The class defines it and no
  method calls it.
\<close>

fun webm_signature :: "8 word list \<Rightarrow> bool" where
  "webm_signature (b0 # b1 # b2 # b3 # bs) = (b0 = 0x1A \<and> b1 = 0x45 \<and> b2 = 0xDF \<and> b3 = 0xA3)"
| "webm_signature bs = False"

definition mp4_signature :: "8 word list \<Rightarrow> bool" where
  \<comment> \<open>\<open>ftyp\<close> at offsets 4 to 7\<close>
  "mp4_signature bs = (4 \<le> length bs \<and> take 4 (drop 4 bs) = [0x66, 0x74, 0x79, 0x70])"

definition has_container_signature :: "blob \<Rightarrow> bool" where
  "has_container_signature b =
    (let bytes = take 32 (blob_head b) in webm_signature bytes \<or> mp4_signature bytes)"

definition validateAudioBlob :: "blob \<Rightarrow> bool" where
  "validateAudioBlob b =
    (if blob_size b < 1000 then False
     else if has_container_signature b then True
     else 8000 < blob_size b)"

definition o_stopRecording :: "openai_service \<Rightarrow> bool \<Rightarrow> openai_service \<times> string" where
  "o_stopRecording s cancelled =
    (s\<lparr>o_isCurrentlyRecording := False, o_audioStream := False\<rparr>,
     if truthy (o_finalTranscription s) then o_finalTranscription s else ''Voice input completed'')"

definition o_reset :: "openai_service \<Rightarrow> openai_service" where
  "o_reset s = s\<lparr>o_isCurrentlyRecording := False, o_finalTranscription := [],
                 o_processedTranscriptions := {}, o_audioStream := False\<rparr>"

text \<open>
  A session of the cloud recognizer as a run: the chunks the recorder hands to
  \<open>sendAudioChunk\<close>, each with the API's answer to the request it may cause. The run
  collects what the calls did and what they threw.
\<close>

fun send_all ::
  "openai_service \<Rightarrow> (blob \<times> api_response) list \<Rightarrow> openai_service \<times> service_effect list \<times> js_error list" where
  "send_all s [] = (s, [], [])"
| "send_all s ((audioBlob, resp) # chunks) =
     (case sendAudioChunk s audioBlob resp of
        (s1, effs1, thrown1) \<Rightarrow>
          (case send_all s1 chunks of
             (s2, effs2, thrown2) \<Rightarrow>
               (s2, effs1 @ effs2, (case thrown1 of None \<Rightarrow> [] | Some e \<Rightarrow> [e]) @ thrown2)))"

text \<open>
  The same for \<open>tryOpenAITranscription\<close> alone: the submissions of one session, each
  with its answer.
\<close>

fun submit_all ::
  "openai_service \<Rightarrow> (blob \<times> api_response) list \<Rightarrow> openai_service \<times> service_effect list" where
  "submit_all s [] = (s, [])"
| "submit_all s ((audioBlob, resp) # subs) =
     (case tryOpenAITranscription s audioBlob resp of
        (s1, effs1, thrown1) \<Rightarrow>
          (case submit_all s1 subs of (s2, effs2) \<Rightarrow> (s2, effs1 @ effs2)))"

fun callback_texts :: "service_effect list \<Rightarrow> string list" where
  "callback_texts [] = []"
| "callback_texts (OnTranscription t is_final # effs) = t # callback_texts effs"
| "callback_texts (eff # effs) = callback_texts effs"

fun api_requests :: "service_effect list \<Rightarrow> api_request list" where
  "api_requests [] = []"
| "api_requests (ApiRequest r # effs) = r # api_requests effs"
| "api_requests (eff # effs) = api_requests effs"

section \<open>The on-device recognizer: \<open>BrowserVoiceInputService\<close>\<close>

definition BROWSER_LANGUAGE_MAP :: "(string \<times> string) list" where
  "BROWSER_LANGUAGE_MAP =
    [(''en-US'', ''en-US''), (''en-GB'', ''en-GB''), (''es'', ''es-ES''), (''fr'', ''fr-FR''),
     (''de'', ''de-DE''), (''it'', ''it-IT''), (''pt'', ''pt-BR''), (''ru'', ''ru-RU''),
     (''ja'', ''ja-JP''), (''ko'', ''ko-KR''), (''zh'', ''zh-CN''), (''zh-TW'', ''zh-TW''),
     (''nl'', ''nl-NL''), (''pl'', ''pl-PL''), (''hi'', ''hi-IN''), (''ro'', ''ro-RO'')]"

text \<open>
  The fields of the class. \<open>b_recognition\<close> says whether \<open>this.recognition\<close> holds a
  native recognizer, \<open>b_recognition_lang\<close> is that recognizer's \<open>lang\<close>.
  \<open>b_pendingRestarts\<close> is the part of the host's timer queue that belongs to this
  object: the number of \<open>setTimeout\<close> closures set by a handler and not yet run.
\<close>

record browser_service =
  b_recognition :: bool
  b_recognition_lang :: string
  b_isCurrentlyRecording :: bool
  b_fullTranscript :: string
  b_audioContext :: bool
  b_audioStream :: bool
  b_restartCount :: nat
  b_language :: string
  b_pendingRestarts :: nat

definition maxRestarts :: nat where
  "maxRestarts = 10"

definition updateRecognitionLanguage :: "host \<Rightarrow> browser_service \<Rightarrow> browser_service" where
  "updateRecognitionLanguage h s =
    (if \<not> b_recognition s then s
     else if b_language s = ''auto'' then
       s\<lparr>b_recognition_lang :=
           (if truthy (navigator_language h) then navigator_language h else ''en-US'')\<rparr>
     else
       s\<lparr>b_recognition_lang :=
           (case object_get BROWSER_LANGUAGE_MAP (b_language s) of
              OwnString code \<Rightarrow> if truthy code then code else b_language s @ ''-US''
            | Undefined \<Rightarrow> b_language s @ ''-US''
            | inherited \<Rightarrow> js_String inherited)\<rparr>)"

definition initializeRecognition :: "host \<Rightarrow> browser_service \<Rightarrow> browser_service" where
  "initializeRecognition h s =
    (let s1 = (if webkitSpeechRecognition h then s\<lparr>b_recognition := True, b_recognition_lang := []\<rparr>
               else if SpeechRecognition h then s\<lparr>b_recognition := True, b_recognition_lang := []\<rparr>
               else s)
     in if b_recognition s1 then updateRecognitionLanguage h s1 else s1)"

definition new_BrowserVoiceInputService :: "host \<Rightarrow> browser_service" where
  "new_BrowserVoiceInputService h =
    initializeRecognition h
      \<lparr> b_recognition = False, b_recognition_lang = [], b_isCurrentlyRecording = False,
        b_fullTranscript = [], b_audioContext = False, b_audioStream = False,
        b_restartCount = 0, b_language = ''auto'', b_pendingRestarts = 0 \<rparr>"

definition b_setLanguage :: "host \<Rightarrow> string \<Rightarrow> browser_service \<Rightarrow> browser_service" where
  "b_setLanguage h lang s = updateRecognitionLanguage h (s\<lparr>b_language := lang\<rparr>)"

definition b_getLanguage :: "browser_service \<Rightarrow> string" where
  "b_getLanguage s = b_language s"

definition b_startRecording ::
  "host \<Rightarrow> browser_service \<Rightarrow> browser_service \<times> service_effect list \<times> js_error option" where
  "b_startRecording h s =
    (if \<not> b_recognition s then
       (s, [], Some \<lparr>name = ''Error'', message = ''Speech recognition not supported in this browser''\<rparr>)
     else
       let s1 = updateRecognitionLanguage h
                  (s\<lparr>b_fullTranscript := [], b_isCurrentlyRecording := True, b_restartCount := 0\<rparr>);
           s2 = (case getUserMedia h of
                   Some e \<Rightarrow> s1
                 | None \<Rightarrow> (case audioSetup h of
                              Some e \<Rightarrow> s1\<lparr>b_audioStream := True\<rparr>
                            | None \<Rightarrow> s1\<lparr>b_audioStream := True, b_audioContext := True\<rparr>))
       in case recognitionStart h of
            Some e \<Rightarrow> (s2, [], Some e)
          | None \<Rightarrow> (s2, [RecognitionStart], None))"

text \<open>
  One entry of \<open>event.results\<close>: the transcript of its first alternative and its
  \<open>isFinal\<close> flag. The loop of \<open>onresult\<close> runs from \<open>event.resultIndex\<close> to the end
  and appends each transcript to one of two buffers.
\<close>

record recognition_result =
  transcript :: string
  isFinal :: bool

fun split_results :: "recognition_result list \<Rightarrow> string \<times> string \<Rightarrow> string \<times> string" where
  "split_results [] (interimTranscript, finalTranscript) = (interimTranscript, finalTranscript)"
| "split_results (r # rs) (interimTranscript, finalTranscript) =
     (if isFinal r then split_results rs (interimTranscript, finalTranscript @ transcript r)
      else split_results rs (interimTranscript @ transcript r, finalTranscript))"

definition onresult ::
  "browser_service \<Rightarrow> nat \<Rightarrow> recognition_result list \<Rightarrow> browser_service \<times> service_effect list" where
  "onresult s resultIndex results =
    (let (interimTranscript, finalTranscript) = split_results (drop resultIndex results) ([], []);
         interim_calls = (if truthy interimTranscript
                          then [OnTranscription (b_fullTranscript s @ interimTranscript) False] else []);
         s1 = (if truthy finalTranscript
               then s\<lparr>b_fullTranscript := b_fullTranscript s @ finalTranscript\<rparr> else s);
         final_calls = (if truthy finalTranscript
                        then [OnTranscription (b_fullTranscript s1) True] else [])
     in (s1, interim_calls @ final_calls))"

definition schedule_restart :: "nat \<Rightarrow> browser_service \<Rightarrow> browser_service \<times> service_effect list" where
  \<comment> \<open>\<open>this.restartCount++\<close>, then \<open>setTimeout\<close> of the closure that restarts\<close>
  "schedule_restart delay s =
    (s\<lparr>b_restartCount := b_restartCount s + 1, b_pendingRestarts := b_pendingRestarts s + 1\<rparr>,
     [SetTimeout delay])"

definition onerror :: "browser_service \<Rightarrow> string \<Rightarrow> browser_service \<times> service_effect list" where
  "onerror s err =
    (if err = ''no-speech'' then
       (if b_isCurrentlyRecording s \<and> b_restartCount s < maxRestarts
        then schedule_restart 100 s else (s, []))
     else if err = ''aborted'' then (s, [])
     else
       (if b_isCurrentlyRecording s \<and> b_restartCount s < maxRestarts
        then schedule_restart 500 s else (s, [])))"

definition onend :: "browser_service \<Rightarrow> browser_service \<times> service_effect list" where
  "onend s =
    (if b_isCurrentlyRecording s \<and> b_restartCount s < maxRestarts
     then schedule_restart 100 s else (s, []))"

definition createFreshRecognition :: "host \<Rightarrow> browser_service \<Rightarrow> browser_service \<times> service_effect list" where
  "createFreshRecognition h s =
    (let s1 = initializeRecognition h s
     in if \<not> b_recognition s1 then (s1, [])
        else case recognitionStart h of
               Some e \<Rightarrow> (s1, [])
             | None \<Rightarrow> (s1, [RecognitionStart]))"

definition restart_timer :: "host \<Rightarrow> browser_service \<Rightarrow> browser_service \<times> service_effect list" where
  \<comment> \<open>a timer set by \<open>schedule_restart\<close> runs its closure; with no timer set nothing runs\<close>
  "restart_timer h s =
    (if b_pendingRestarts s = 0 then (s, [])
     else let s1 = s\<lparr>b_pendingRestarts := b_pendingRestarts s - 1\<rparr>
          in if b_isCurrentlyRecording s1 then createFreshRecognition h s1 else (s1, []))"

definition b_stopRecording :: "browser_service \<Rightarrow> bool \<Rightarrow> browser_service \<times> string" where
  "b_stopRecording s cancelled =
    (s\<lparr>b_isCurrentlyRecording := False, b_restartCount := 0, b_audioStream := False\<rparr>,
     b_fullTranscript s)"

definition b_reset :: "browser_service \<Rightarrow> browser_service" where
  "b_reset s = s\<lparr>b_isCurrentlyRecording := False, b_restartCount := 0,
                 b_fullTranscript := [], b_audioStream := False\<rparr>"

text \<open>
  What the host delivers to a recognizer during a session: a result batch, an error
  with its code, the end of recognition, or the firing of a restart timer.
\<close>

datatype recognition_event =
    RecognitionResult nat "recognition_result list"
  | RecognitionError string
  | RecognitionEnd
  | RestartTimer

fun b_handle :: "host \<Rightarrow> browser_service \<Rightarrow> recognition_event \<Rightarrow> browser_service \<times> service_effect list" where
  "b_handle h s (RecognitionResult resultIndex results) = onresult s resultIndex results"
| "b_handle h s (RecognitionError err) = onerror s err"
| "b_handle h s RecognitionEnd = onend s"
| "b_handle h s RestartTimer = restart_timer h s"

fun b_run :: "host \<Rightarrow> browser_service \<Rightarrow> recognition_event list \<Rightarrow> browser_service \<times> service_effect list" where
  "b_run h s [] = (s, [])"
| "b_run h s (ev # evs) =
     (let (s1, effs1) = b_handle h s ev; (s2, effs2) = b_run h s1 evs in (s2, effs1 @ effs2))"

fun restart_attempts :: "service_effect list \<Rightarrow> nat" where
  "restart_attempts [] = 0"
| "restart_attempts (SetTimeout delay # effs) = Suc (restart_attempts effs)"
| "restart_attempts (eff # effs) = restart_attempts effs"

fun recognizer_starts :: "service_effect list \<Rightarrow> nat" where
  "recognizer_starts [] = 0"
| "recognizer_starts (RecognitionStart # effs) = Suc (recognizer_starts effs)"
| "recognizer_starts (eff # effs) = recognizer_starts effs"

section \<open>Backend selection: \<open>createVoiceInputService\<close>\<close>

datatype voice_service = Browser browser_service | OpenAI openai_service

text \<open>
  The error the factory throws. Its message starts with a pictograph, which is outside
  the model's alphabet and is left out here.
\<close>

definition no_recognition_error :: js_error where
  "no_recognition_error =
    \<lparr>name = ''Error'',
     message = ''No speech recognition available: Browser does not support speech recognition and no OpenAI API key provided''\<rparr>"

definition createVoiceInputService :: "host \<Rightarrow> string \<Rightarrow> js_error + voice_service" where
  "createVoiceInputService h lang =
    (if webkitSpeechRecognition h \<or> SpeechRecognition h then
       Inr (Browser (b_setLanguage h lang (new_BrowserVoiceInputService h)))
     else case VITE_OPENAI_API_KEY h of
            None \<Rightarrow> Inl no_recognition_error
          | Some apiKey \<Rightarrow>
              if truthy apiKey
              then Inr (OpenAI (o_setLanguage lang (new_OpenAIVoiceInputService apiKey)))
              else Inl no_recognition_error)"

fun service_getLanguage :: "voice_service \<Rightarrow> string" where
  "service_getLanguage (Browser s) = b_getLanguage s"
| "service_getLanguage (OpenAI s) = o_getLanguage s"

fun service_setLanguage :: "host \<Rightarrow> string \<Rightarrow> voice_service \<Rightarrow> voice_service" where
  "service_setLanguage h lang (Browser s) = Browser (b_setLanguage h lang s)"
| "service_setLanguage h lang (OpenAI s) = OpenAI (o_setLanguage lang s)"

fun service_isRecording :: "voice_service \<Rightarrow> bool" where
  "service_isRecording (Browser s) = b_isCurrentlyRecording s"
| "service_isRecording (OpenAI s) = o_isCurrentlyRecording s"

fun service_startRecording ::
  "host \<Rightarrow> voice_service \<Rightarrow> voice_service \<times> service_effect list \<times> js_error option" where
  "service_startRecording h (Browser s) =
     (case b_startRecording h s of (s1, effs, thrown) \<Rightarrow> (Browser s1, effs, thrown))"
| "service_startRecording h (OpenAI s) =
     (case o_startRecording h s of (s1, effs, thrown) \<Rightarrow> (OpenAI s1, effs, thrown))"

text \<open>
  Both implementations of \<open>stopRecording\<close> catch whatever their teardown throws, so
  the promise they return never rejects: the third component is always \<open>None\<close>.
\<close>

fun service_stopRecording ::
  "voice_service \<Rightarrow> bool \<Rightarrow> voice_service \<times> string \<times> js_error option" where
  "service_stopRecording (Browser s) cancelled =
     (case b_stopRecording s cancelled of (s1, text) \<Rightarrow> (Browser s1, text, None))"
| "service_stopRecording (OpenAI s) cancelled =
     (case o_stopRecording s cancelled of (s1, text) \<Rightarrow> (OpenAI s1, text, None))"

fun service_reset :: "voice_service \<Rightarrow> voice_service" where
  "service_reset (Browser s) = Browser (b_reset s)"
| "service_reset (OpenAI s) = OpenAI (o_reset s)"

section \<open>The transcript reconciler: \<open>useVoiceTranscription\<close>\<close>

datatype emit_mode = Full | Delta | Segment

text \<open>
  The options of the hook. \<open>getBaselineText\<close> is \<open>None\<close> when the consumer gave no
  accessor and \<open>Some s\<close> when the accessor returns \<open>s\<close>. The consumer's callbacks are
  not fields: a call \<open>options.onTranscriptionUpdate?.(text, isFinal)\<close> or
  \<open>options.onError?.(msg)\<close> is recorded as a \<open>consumer_call\<close>, in the order made.
\<close>

record options =
  opt_language :: "string option"
  emitMode :: "emit_mode option"
  getBaselineText :: "string option"

datatype consumer_call = TranscriptionUpdate string bool | ErrorCallback string

text \<open>
  The state of the hook: its six \<open>useState\<close> cells and its refs. A state setter is
  modelled as an assignment, and every \<open>async\<close> function as running to its end without
  another callback in between, except \<open>stopRecording\<close>, which is split at its \<open>await\<close>.
  The visualization loop (\<open>requestAnimationFrame\<close>) is left out.
\<close>

record hook_state =
  isRecording :: bool
  transcription :: string
  interimTranscription :: string
  error :: "string option"
  permissionDenied :: bool
  language :: string
  voiceServiceRef :: "voice_service option"
  isCancelledRef :: bool
  processedRef :: string

definition useVoiceTranscription :: "options \<Rightarrow> hook_state" where
  \<comment> \<open>the state at the first render\<close>
  "useVoiceTranscription opts =
    \<lparr> isRecording = False, transcription = [], interimTranscription = [], error = None,
      permissionDenied = False,
      language = (case opt_language opts of
                    None \<Rightarrow> ''auto''
                  | Some l \<Rightarrow> if truthy l then l else ''auto''),
      voiceServiceRef = None, isCancelledRef = False, processedRef = [] \<rparr>"

text \<open>
  The callback \<open>startRecording\<close> hands to the service, as
  \<open>src/useVoiceTranscription.ts\<close> has it: \<open>text\<close> is the whole text the backend has
  accumulated.
\<close>

definition transcription_callback ::
  "options \<Rightarrow> hook_state \<Rightarrow> string \<Rightarrow> bool \<Rightarrow> hook_state \<times> consumer_call list" where
  "transcription_callback opts st text is_final =
    (if isCancelledRef st then (st, [])
     else
       let newText = text;
           prev = processedRef st;
           mode = (case emitMode opts of None \<Rightarrow> Full | Some m \<Rightarrow> m);
           delta = (if mode = Delta
                    then (if startsWith newText prev then slice_from newText (length prev) else newText)
                    else newText)
       in if is_final then
            (st\<lparr>transcription := newText, interimTranscription := [],
                processedRef := (if mode = Delta then newText else processedRef st)\<rparr>,
             if truthy delta then [TranscriptionUpdate delta True] else [])
          else
            (st\<lparr>interimTranscription := newText,
                processedRef := (if mode = Delta then newText else processedRef st)\<rparr>,
             if truthy delta then [TranscriptionUpdate delta False] else []))"

fun run_callback ::
  "options \<Rightarrow> hook_state \<Rightarrow> (string \<times> bool) list \<Rightarrow> hook_state \<times> consumer_call list" where
  "run_callback opts st [] = (st, [])"
| "run_callback opts st ((text, is_final) # evs) =
     (let (st1, calls1) = transcription_callback opts st text is_final;
          (st2, calls2) = run_callback opts st1 evs
      in (st2, calls1 @ calls2))"

definition startRecording_catch :: "hook_state \<Rightarrow> js_error \<Rightarrow> hook_state \<times> consumer_call list" where
  "startRecording_catch st e =
    (if name e = ''NotAllowedError'' \<or> str_includes (message e) ''microphone'' then
       (st\<lparr>permissionDenied := True, error := Some ''Microphone permission denied''\<rparr>,
        [ErrorCallback ''Microphone permission denied''])
     else
       (st\<lparr>error := Some ''Failed to start recording''\<rparr>,
        [ErrorCallback ''Failed to start recording'']))"

definition startRecording :: "options \<Rightarrow> host \<Rightarrow> hook_state \<Rightarrow> hook_state \<times> consumer_call list" where
  "startRecording opts h st =
    (let st1 = st\<lparr>error := None, permissionDenied := False, transcription := [],
                   interimTranscription := [], isCancelledRef := False\<rparr>;
         st2 = (if emitMode opts = Some Delta then
                  (case getBaselineText opts of
                     None \<Rightarrow> st1
                   | Some b \<Rightarrow> if truthy (trim b) then st1\<lparr>processedRef := trim b\<rparr> else st1)
                else st1);
         st3 = (case voiceServiceRef st2 of
                  None \<Rightarrow> st2
                | Some svc \<Rightarrow> st2\<lparr>voiceServiceRef := Some (fst (service_stopRecording svc True))\<rparr>)
     in case createVoiceInputService h (language st3) of
          Inl e \<Rightarrow> startRecording_catch st3 e
        | Inr svc \<Rightarrow>
            (case service_startRecording h svc of
               (svc1, effs, Some e) \<Rightarrow> startRecording_catch (st3\<lparr>voiceServiceRef := Some svc1\<rparr>) e
             | (svc1, effs, None) \<Rightarrow> (st3\<lparr>voiceServiceRef := Some svc1, isRecording := True\<rparr>, [])))"

text \<open>
  \<open>stopRecording\<close> up to its \<open>await\<close>: the guard, the cancellation flag, and the call
  of the service's \<open>stopRecording\<close>. \<open>None\<close> is the early return of the guard.
\<close>

definition stopRecording_begin :: "bool \<Rightarrow> hook_state \<Rightarrow> (hook_state \<times> js_error option) option" where
  "stopRecording_begin cancelled st =
    (case voiceServiceRef st of
       None \<Rightarrow> None
     | Some svc \<Rightarrow>
         if \<not> isRecording st then None
         else case service_stopRecording svc cancelled of
                (svc1, text, thrown) \<Rightarrow>
                  Some (st\<lparr>isCancelledRef := cancelled, voiceServiceRef := Some svc1\<rparr>, thrown))"

definition stopRecording_finish :: "hook_state \<Rightarrow> js_error option \<Rightarrow> hook_state \<times> consumer_call list" where
  "stopRecording_finish st thrown =
    (case thrown of
       None \<Rightarrow> (st\<lparr>isRecording := False, voiceServiceRef := map_option service_reset (voiceServiceRef st)\<rparr>, [])
     | Some e \<Rightarrow>
         (st\<lparr>error := Some ''Failed to stop recording'',
             voiceServiceRef := map_option service_reset (voiceServiceRef st)\<rparr>,
          [ErrorCallback ''Failed to stop recording'']))"

definition stopRecording :: "bool \<Rightarrow> hook_state \<Rightarrow> hook_state \<times> consumer_call list" where
  "stopRecording cancelled st =
    (case stopRecording_begin cancelled st of
       None \<Rightarrow> (st, [])
     | Some (st1, thrown) \<Rightarrow> stopRecording_finish st1 thrown)"

subsection \<open>The variant of the hook that receives segments\<close>

text \<open>
  The second version of \<open>useVoiceTranscription\<close> keeps the finalized text itself, in
  \<open>transcriptionHistoryRef\<close>, and reads \<open>text\<close> as one segment. \<open>startRecording\<close> of
  that version sets \<open>transcriptionHistoryRef\<close> to the empty string.
\<close>

record hook_state_v2 = hook_state +
  transcriptionHistoryRef :: string

definition separator :: "string \<Rightarrow> string \<Rightarrow> string" where
  "separator currentFullText text =
    (if 0 < length currentFullText \<and> \<not> endsWith currentFullText '' '' \<and> \<not> startsWith text '' ''
     then '' '' else [])"

definition transcription_callback_v2 ::
  "options \<Rightarrow> hook_state_v2 \<Rightarrow> string \<Rightarrow> bool \<Rightarrow> hook_state_v2 \<times> consumer_call list" where
  "transcription_callback_v2 opts st text is_final =
    (if isCancelledRef st then (st, [])
     else
       let currentFullText = transcriptionHistoryRef st;
           sep = separator currentFullText text;
           effectiveFullText = currentFullText @ sep @ text;
           mode = (case emitMode opts of None \<Rightarrow> Full | Some m \<Rightarrow> m);
           textToEmit = (if mode = Segment then sep @ text else effectiveFullText);
           prev = processedRef st;
           delta = (if mode = Delta
                    then (if startsWith textToEmit prev then slice_from textToEmit (length prev) else textToEmit)
                    else textToEmit)
       in if is_final then
            (st\<lparr>transcriptionHistoryRef := transcriptionHistoryRef st @ sep @ text,
                transcription := transcriptionHistoryRef st @ sep @ text,
                interimTranscription := [],
                processedRef := (if mode = Delta then textToEmit
                                 else if mode = Segment then [] else textToEmit)\<rparr>,
             if mode = Segment then [TranscriptionUpdate textToEmit True]
             else if truthy delta then [TranscriptionUpdate delta True] else [])
          else
            (st\<lparr>interimTranscription := text,
                processedRef := (if mode = Delta then textToEmit else processedRef st)\<rparr>,
             if mode = Segment then [TranscriptionUpdate textToEmit False]
             else if truthy delta then [TranscriptionUpdate delta False] else []))"

fun run_callback_v2 ::
  "options \<Rightarrow> hook_state_v2 \<Rightarrow> (string \<times> bool) list \<Rightarrow> hook_state_v2 \<times> consumer_call list" where
  "run_callback_v2 opts st [] = (st, [])"
| "run_callback_v2 opts st ((text, is_final) # evs) =
     (let (st1, calls1) = transcription_callback_v2 opts st text is_final;
          (st2, calls2) = run_callback_v2 opts st1 evs
      in (st2, calls1 @ calls2))"

subsection \<open>The hook and its service together\<close>

text \<open>
  What the host delivers to the live service: an event of the native recognizer, or a
  \<open>dataavailable\<close> event of the recorder together with the API's answer to the request
  that chunk may cause. The service's handler runs, and every call it makes of its
  \<open>onTranscription\<close> callback runs the hook's callback.
\<close>

datatype backend_event = Recognition recognition_event | DataAvailable blob api_response

fun service_handle ::
  "host \<Rightarrow> voice_service \<Rightarrow> backend_event \<Rightarrow> voice_service \<times> service_effect list \<times> js_error option" where
  "service_handle h (Browser s) (Recognition ev) =
     (case b_handle h s ev of (s1, effs) \<Rightarrow> (Browser s1, effs, None))"
| "service_handle h (OpenAI s) (DataAvailable data resp) =
     (if 0 < blob_size data
      then (case sendAudioChunk s data resp of (s1, effs, thrown) \<Rightarrow> (OpenAI s1, effs, thrown))
      else (OpenAI s, [], None))"
| "service_handle h svc ev = (svc, [], None)"

fun forward ::
  "options \<Rightarrow> hook_state \<Rightarrow> service_effect list \<Rightarrow> hook_state \<times> consumer_call list" where
  "forward opts st [] = (st, [])"
| "forward opts st (OnTranscription text is_final # effs) =
     (let (st1, calls1) = transcription_callback opts st text is_final;
          (st2, calls2) = forward opts st1 effs
      in (st2, calls1 @ calls2))"
| "forward opts st (eff # effs) = forward opts st effs"

definition deliver ::
  "options \<Rightarrow> host \<Rightarrow> hook_state \<Rightarrow> backend_event \<Rightarrow> (hook_state \<times> consumer_call list) \<times> js_error option" where
  "deliver opts h st ev =
    (case voiceServiceRef st of
       None \<Rightarrow> ((st, []), None)
     | Some svc \<Rightarrow>
         (case service_handle h svc ev of
            (svc1, effs, thrown) \<Rightarrow> (forward opts (st\<lparr>voiceServiceRef := Some svc1\<rparr>) effs, thrown)))"

fun deliver_run ::
  "options \<Rightarrow> host \<Rightarrow> hook_state \<Rightarrow> backend_event list \<Rightarrow> hook_state \<times> consumer_call list" where
  "deliver_run opts h st [] = (st, [])"
| "deliver_run opts h st (ev # evs) =
     (let (st1, calls1) = fst (deliver opts h st ev);
          (st2, calls2) = deliver_run opts h st1 evs
      in (st2, calls1 @ calls2))"

subsection \<open>The finalized text, as the specification words it\<close>

text \<open>
  The concatenation of the finalized segments with single-space joins where needed: a
  segment is appended to what came before, with one space between the two when there is
  something before, it does not end in a space, and the segment does not start with
  one (an empty segment does not start with one).
\<close>

definition join_segment :: "string \<Rightarrow> string \<Rightarrow> string" where
  "join_segment acc seg =
    (if acc = [] then seg
     else if last acc = CHR '' '' then acc @ seg
     else if seg \<noteq> [] \<and> hd seg = CHR '' '' then acc @ seg
     else acc @ '' '' @ seg)"

definition joined_finals :: "string \<Rightarrow> (string \<times> bool) list \<Rightarrow> string" where
  \<comment> \<open>the finalized segments of a run of events, joined onto the text before them\<close>
  "joined_finals acc evs = foldl join_segment acc (map fst (filter snd evs))"

text \<open>
  The concatenation of the finalized transcripts of a session of the on-device
  recognizer, with nothing between them: of each result batch, the transcripts from
  \<open>resultIndex\<close> on that are final.
\<close>

fun finalized_transcripts :: "recognition_event list \<Rightarrow> string" where
  "finalized_transcripts [] = []"
| "finalized_transcripts (RecognitionResult resultIndex results # evs) =
     concat (map transcript (filter isFinal (drop resultIndex results))) @ finalized_transcripts evs"
| "finalized_transcripts (ev # evs) = finalized_transcripts evs"

subsection \<open>Hosts and states for worked examples\<close>

definition default_options :: options where
  "default_options = \<lparr>opt_language = None, emitMode = None, getBaselineText = None\<rparr>"

definition browser_host :: host where
  \<comment> \<open>a browser with the prefixed recognizer and a microphone that is granted\<close>
  "browser_host =
    \<lparr> webkitSpeechRecognition = True, SpeechRecognition = False,
      VITE_OPENAI_API_KEY = None, navigator_language = ''en-US'', getUserMedia = None,
      audioSetup = None, recognitionStart = None \<rparr>"

definition cloud_host :: host where
  \<comment> \<open>no native recognizer, an API key, a microphone that is granted\<close>
  "cloud_host =
    \<lparr> webkitSpeechRecognition = False, SpeechRecognition = False,
      VITE_OPENAI_API_KEY = Some ''sk-test'', navigator_language = ''en-US'',
      getUserMedia = None, audioSetup = None, recognitionStart = None \<rparr>"

definition bare_host :: host where
  \<comment> \<open>neither a native recognizer nor an API key\<close>
  "bare_host =
    \<lparr> webkitSpeechRecognition = False, SpeechRecognition = False,
      VITE_OPENAI_API_KEY = None, navigator_language = ''en-US'', getUserMedia = None,
      audioSetup = None, recognitionStart = None \<rparr>"

definition NotAllowedError :: js_error where
  "NotAllowedError = \<lparr>name = ''NotAllowedError'', message = ''Permission denied''\<rparr>"

definition denied_cloud_host :: host where
  \<comment> \<open>\<open>cloud_host\<close> with the microphone refused\<close>
  "denied_cloud_host = cloud_host\<lparr>getUserMedia := Some NotAllowedError\<rparr>"

definition recording_state :: hook_state where
  \<comment> \<open>the hook after a successful \<open>startRecording\<close> on \<open>browser_host\<close>\<close>
  "recording_state =
    fst (startRecording default_options browser_host (useVoiceTranscription default_options))"

definition cloud_session :: openai_service where
  \<comment> \<open>the cloud recognizer the factory makes on \<open>cloud_host\<close>, after \<open>startRecording\<close>\<close>
  "cloud_session =
    fst (o_startRecording cloud_host (o_setLanguage ''auto'' (new_OpenAIVoiceInputService ''sk-test'')))"

definition unsigned_chunk :: blob where
  \<comment> \<open>20000 bytes typed as WebM that begin with zeros: no WebM magic, no \<open>ftyp\<close> box\<close>
  "unsigned_chunk =
    \<lparr> blob_size = 20000, blob_type = ''audio/webm'',
      blob_head = [0, 0, 0, 0, 0, 0, 0, 0, 0, 0, 0, 0, 0, 0, 0, 0,
                   0, 0, 0, 0, 0, 0, 0, 0, 0, 0, 0, 0, 0, 0, 0, 0] \<rparr>"

definition untyped_webm_chunk :: blob where
  \<comment> \<open>20000 bytes that begin with the WebM magic, with an empty MIME type\<close>
  "untyped_webm_chunk =
    \<lparr> blob_size = 20000, blob_type = [],
      blob_head = [0x1A, 0x45, 0xDF, 0xA3, 0, 0, 0, 0, 0, 0, 0, 0, 0, 0, 0, 0,
                   0, 0, 0, 0, 0, 0, 0, 0, 0, 0, 0, 0, 0, 0, 0, 0] \<rparr>"

definition cancelled_state :: hook_state where
  \<comment> \<open>\<open>recording_state\<close> after \<open>stopRecording(true)\<close> has finished\<close>
  "cancelled_state = fst (stopRecording True recording_state)"

definition cancelled_service :: browser_service where
  \<comment> \<open>the service of the cancelled session, stopped and reset; its recognizer still has its handlers\<close>
  "cancelled_service =
    (case voiceServiceRef cancelled_state of
       Some (Browser s) \<Rightarrow> s
     | other \<Rightarrow> new_BrowserVoiceInputService browser_host)"

definition restarted_state :: hook_state where
  \<comment> \<open>the hook after the next \<open>startRecording\<close>, as the shell calls it after \<open>stopRecording(true)\<close>\<close>
  "restarted_state = fst (startRecording default_options browser_host cancelled_state)"

section \<open>Properties of the reconciler's callback\<close>

lemma run_callback_Cons:
  "run_callback opts st ((t, g) # evs) =
     (fst (run_callback opts (fst (transcription_callback opts st t g)) evs),
      snd (transcription_callback opts st t g)
        @ snd (run_callback opts (fst (transcription_callback opts st t g)) evs))"
  by (simp add: split_beta)

lemma run_callback_cancelled:
  "isCancelledRef st \<Longrightarrow> run_callback opts st evs = (st, [])"
  by (induction evs) (auto simp: transcription_callback_def)

lemma transcription_callback_nonempty:
  "TranscriptionUpdate [] f \<notin> set (snd (transcription_callback opts st t g))"
  by (simp add: transcription_callback_def Let_def truthy_def)

lemma run_callback_nonempty:
  "TranscriptionUpdate [] f \<notin> set (snd (run_callback opts st evs))"
proof (induction evs arbitrary: st)
  case Nil
  show ?case by simp
next
  case (Cons ev evs)
  obtain t g where ev: "ev = (t, g)" by (cases ev)
  show ?case
    unfolding ev run_callback_Cons
    using Cons.IH transcription_callback_nonempty by simp
qed

lemma forward_OnTranscription:
  "forward opts st (OnTranscription t g # effs) =
     (fst (forward opts (fst (transcription_callback opts st t g)) effs),
      snd (transcription_callback opts st t g)
        @ snd (forward opts (fst (transcription_callback opts st t g)) effs))"
  by (simp add: split_beta)

lemma forward_cancelled:
  "isCancelledRef st \<Longrightarrow> forward opts st effs = (st, [])"
proof (induction effs)
  case (Cons eff effs)
  then show ?case
    by (cases eff) (simp_all add: transcription_callback_def)
qed simp

lemma forward_nonempty:
  "TranscriptionUpdate [] f \<notin> set (snd (forward opts st effs))"
proof (induction effs arbitrary: st)
  case (Cons eff effs)
  show ?case
  proof (cases eff)
    case (OnTranscription t g)
    show ?thesis
      unfolding OnTranscription forward_OnTranscription
      using Cons.IH transcription_callback_nonempty by simp
  qed (simp_all add: Cons.IH)
qed simp

lemma transcription_callback_no_error:
  "ErrorCallback m \<notin> set (snd (transcription_callback opts st t g))"
  by (simp add: transcription_callback_def Let_def)

lemma transcription_callback_isCancelledRef:
  "isCancelledRef (fst (transcription_callback opts st t g)) = isCancelledRef st"
  by (simp add: transcription_callback_def Let_def)

lemma forward_no_error:
  "ErrorCallback m \<notin> set (snd (forward opts st effs))"
proof (induction effs arbitrary: st)
  case (Cons eff effs)
  show ?case
  proof (cases eff)
    case (OnTranscription t g)
    show ?thesis
      unfolding OnTranscription forward_OnTranscription
      using Cons.IH transcription_callback_no_error by simp
  qed (simp_all add: Cons.IH)
qed simp

lemma deliver_cancelled:
  "isCancelledRef st \<Longrightarrow>
     snd (fst (deliver opts h st ev)) = [] \<and> isCancelledRef (fst (fst (deliver opts h st ev)))"
  by (auto simp: deliver_def forward_cancelled split: option.splits prod.splits)

lemma deliver_run_cancelled:
  "isCancelledRef st \<Longrightarrow>
     snd (deliver_run opts h st evs) = [] \<and> isCancelledRef (fst (deliver_run opts h st evs))"
proof (induction evs arbitrary: st)
  case Nil
  then show ?case by simp
next
  case (Cons ev evs)
  from deliver_cancelled [OF Cons.prems, of opts h ev]
  have a: "snd (fst (deliver opts h st ev)) = []"
    and b: "isCancelledRef (fst (fst (deliver opts h st ev)))" by simp_all
  from Cons.IH [OF b] a show ?case
    by (simp add: split_beta)
qed

lemma stopRecording_finish_isCancelledRef:
  "isCancelledRef (fst (stopRecording_finish st thrown)) = isCancelledRef st"
  by (simp add: stopRecording_finish_def split: option.splits)

text \<open>
  What the cancellation flag does guarantee. When the hook is recording (it holds a
  service and \<open>isRecording\<close> is true), \<open>stopRecording(true)\<close> passes its guard and sets
  the flag before it waits for the service. While the flag stays set no segment reaches
  the consumer: neither one handed straight to the callback, nor one the service
  produces from a host event while the stop is pending, nor one it produces after the
  stop has finished.
\<close>

lemma cancelled_stop_silences_updates:
  assumes "voiceServiceRef st \<noteq> None" and "isRecording st"
  shows "\<exists>st1 thrown. stopRecording_begin True st = Some (st1, thrown)
           \<and> isCancelledRef st1
           \<and> snd (run_callback opts st1 segments) = []
           \<and> snd (deliver_run opts h st1 during) = []
           \<and> snd (deliver_run opts h
                   (fst (stopRecording_finish (fst (deliver_run opts h st1 during)) thrown))
                   after) = []"
proof -
  from assms obtain svc where svc: "voiceServiceRef st = Some svc" by auto
  obtain svc1 t thrown where stop: "service_stopRecording svc True = (svc1, t, thrown)"
    by (cases "service_stopRecording svc True")
  define st1 where "st1 = st\<lparr>isCancelledRef := True, voiceServiceRef := Some svc1\<rparr>"
  have beg: "stopRecording_begin True st = Some (st1, thrown)"
    using svc stop assms(2) by (simp add: stopRecording_begin_def st1_def)
  have c1: "isCancelledRef st1" by (simp add: st1_def)
  have c2: "isCancelledRef (fst (deliver_run opts h st1 during))"
    using deliver_run_cancelled [OF c1] by simp
  have c3: "isCancelledRef (fst (stopRecording_finish (fst (deliver_run opts h st1 during)) thrown))"
    using c2 by (simp add: stopRecording_finish_isCancelledRef)
  show ?thesis
    using beg c1 run_callback_cancelled [OF c1] deliver_run_cancelled [OF c1]
      deliver_run_cancelled [OF c3]
    by simp
qed

lemma recording_state_eq:
  "recording_state =
    \<lparr>isRecording = True, transcription = [], interimTranscription = [], error = None,
     permissionDenied = False, language = ''auto'',
     voiceServiceRef = Some (Browser
        \<lparr>b_recognition = True, b_recognition_lang = ''en-US'', b_isCurrentlyRecording = True,
         b_fullTranscript = [], b_audioContext = True, b_audioStream = True,
         b_restartCount = 0, b_language = ''auto'', b_pendingRestarts = 0\<rparr>),
     isCancelledRef = False, processedRef = []\<rparr>"
  by (simp add: recording_state_def startRecording_def useVoiceTranscription_def
      default_options_def browser_host_def createVoiceInputService_def b_setLanguage_def
      new_BrowserVoiceInputService_def initializeRecognition_def updateRecognitionLanguage_def
      b_startRecording_def truthy_def Let_def)

lemma cancelled_stop_silences_updates_example:
  "voiceServiceRef recording_state \<noteq> None \<and> isRecording recording_state
   \<and> (\<exists>st1 thrown. stopRecording_begin True recording_state = Some (st1, thrown)
           \<and> isCancelledRef st1
           \<and> snd (run_callback default_options st1 [(''buffered words'', True)]) = []
           \<and> snd (deliver_run default_options browser_host st1
                   [Recognition (RecognitionResult 0 [\<lparr>transcript = ''buffered'', isFinal = True\<rparr>])]) = []
           \<and> snd (deliver_run default_options browser_host
                   (fst (stopRecording_finish (fst (deliver_run default_options browser_host st1
                      [Recognition (RecognitionResult 0 [\<lparr>transcript = ''buffered'', isFinal = True\<rparr>])])) thrown))
                   [Recognition (RecognitionResult 0 [\<lparr>transcript = ''late'', isFinal = True\<rparr>])]) = [])"
proof -
  have a: "voiceServiceRef recording_state \<noteq> None"
    by (simp add: recording_state_eq)
  have b: "isRecording recording_state"
    by (simp add: recording_state_eq)
  show ?thesis
    by (intro conjI a b cancelled_stop_silences_updates [OF a b])
qed

text \<open>
  The flag is cleared by the next \<open>startRecording\<close>, which begins another session.
\<close>

lemma startRecording_clears_cancellation:
  "\<not> isCancelledRef (fst (startRecording opts h st))"
  by (simp add: startRecording_def Let_def startRecording_catch_def split: option.splits sum.splits prod.splits)

lemma cancelled_state_eq:
  "cancelled_state =
    \<lparr>isRecording = False, transcription = [], interimTranscription = [], error = None,
     permissionDenied = False, language = ''auto'',
     voiceServiceRef = Some (Browser
        \<lparr>b_recognition = True, b_recognition_lang = ''en-US'', b_isCurrentlyRecording = False,
         b_fullTranscript = [], b_audioContext = True, b_audioStream = False,
         b_restartCount = 0, b_language = ''auto'', b_pendingRestarts = 0\<rparr>),
     isCancelledRef = True, processedRef = []\<rparr>"
  by (simp add: cancelled_state_def recording_state_eq stopRecording_def stopRecording_begin_def
      stopRecording_finish_def b_stopRecording_def b_reset_def)

lemma restarted_state_eq:
  "restarted_state =
    \<lparr>isRecording = True, transcription = [], interimTranscription = [], error = None,
     permissionDenied = False, language = ''auto'',
     voiceServiceRef = Some (Browser
        \<lparr>b_recognition = True, b_recognition_lang = ''en-US'', b_isCurrentlyRecording = True,
         b_fullTranscript = [], b_audioContext = True, b_audioStream = True,
         b_restartCount = 0, b_language = ''auto'', b_pendingRestarts = 0\<rparr>),
     isCancelledRef = False, processedRef = []\<rparr>"
  by (simp add: restarted_state_def cancelled_state_eq startRecording_def
      default_options_def browser_host_def createVoiceInputService_def b_setLanguage_def
      new_BrowserVoiceInputService_def initializeRecognition_def updateRecognitionLanguage_def
      b_startRecording_def b_stopRecording_def truthy_def Let_def)

text \<open>
  Claim C3 fails once another session has started. The flag is one ref, shared by the
  callbacks of all sessions, and the recognizer of the cancelled session keeps its
  handlers. After \<open>stopRecording(true)\<close> a buffered final result of that recognizer is
  dropped; after the next \<open>startRecording\<close>, which the shell calls right after
  \<open>stopRecording(true)\<close> to be rid of buffered transcripts, the same result reaches
  \<open>onTranscriptionUpdate\<close>.
\<close>

theorem cancelled_session_segment_forwarded_after_restart:
  "isRecording recording_state \<and> voiceServiceRef recording_state \<noteq> None
   \<and> isCancelledRef cancelled_state
   \<and> voiceServiceRef cancelled_state = Some (Browser cancelled_service)
   \<and> snd (onresult cancelled_service 0 [\<lparr>transcript = ''late words'', isFinal = True\<rparr>]) =
       [OnTranscription ''late words'' True]
   \<and> snd (forward default_options cancelled_state
            (snd (onresult cancelled_service 0 [\<lparr>transcript = ''late words'', isFinal = True\<rparr>]))) = []
   \<and> snd (forward default_options restarted_state
            (snd (onresult cancelled_service 0 [\<lparr>transcript = ''late words'', isFinal = True\<rparr>]))) =
       [TranscriptionUpdate ''late words'' True]"
  by (simp add: recording_state_eq cancelled_state_eq restarted_state_eq cancelled_service_def
      onresult_def truthy_def transcription_callback_def default_options_def Let_def)

lemma onresult_nonempty:
  "OnTranscription [] f \<notin> set (snd (onresult s i rs))"
  by (simp add: onresult_def Let_def truthy_def split_beta)

lemma tryOpenAITranscription_nonempty:
  "OnTranscription [] f \<notin> set (fst (snd (tryOpenAITranscription s b r)))"
  by (simp add: tryOpenAITranscription_def Let_def truthy_def split: api_response.splits)

lemma transcription_callback_v2_nonempty:
  "emitMode opts \<noteq> Some Segment \<or> t \<noteq> [] \<Longrightarrow>
     TranscriptionUpdate [] f \<notin> set (snd (transcription_callback_v2 opts st t g))"
  by (auto simp: transcription_callback_v2_def Let_def truthy_def split: option.splits)


lemma run_callback_v2_Cons:
  "run_callback_v2 opts st ((t, g) # evs) =
     (fst (run_callback_v2 opts (fst (transcription_callback_v2 opts st t g)) evs),
      snd (transcription_callback_v2 opts st t g)
        @ snd (run_callback_v2 opts (fst (transcription_callback_v2 opts st t g)) evs))"
  by (simp add: split_beta)

lemma run_callback_v2_nonempty:
  "[] \<notin> fst ` set evs \<Longrightarrow>
     TranscriptionUpdate [] f \<notin> set (snd (run_callback_v2 opts st evs))"
proof (induction evs arbitrary: st)
  case Nil
  show ?case by simp
next
  case (Cons ev evs)
  obtain t g where ev: "ev = (t, g)" by (cases ev)
  from Cons.prems ev have t: "t \<noteq> []" and rest: "[] \<notin> fst ` set evs" by auto
  show ?case
    unfolding ev run_callback_v2_Cons
    using Cons.IH [OF rest] transcription_callback_v2_nonempty [of opts t f st g] t by simp
qed

lemma deliver_nonempty:
  "TranscriptionUpdate [] f \<notin> set (snd (fst (deliver opts h st ev)))"
  by (simp add: deliver_def forward_nonempty split: option.splits prod.splits)

lemma deliver_run_nonempty:
  "TranscriptionUpdate [] f \<notin> set (snd (deliver_run opts h st evs))"
proof (induction evs arbitrary: st)
  case (Cons ev evs)
  show ?case
    using Cons.IH deliver_nonempty [of f opts h st ev] by (simp add: split_beta)
qed simp

text \<open>
  Claim C10. The callback never calls \<open>onTranscriptionUpdate\<close> with the empty string,
  whatever the options, the state and the events, alone or behind its service. An event
  whose delta or full text is empty changes the state and makes no call. The guards of
  the two backends keep the empty string out of their own callback calls as well, and
  the variant of the hook makes no empty call for segments that are not empty.
\<close>

theorem no_empty_transcription_update:
  "TranscriptionUpdate [] f \<notin> set (snd (run_callback opts st evs))
   \<and> TranscriptionUpdate [] f \<notin> set (snd (deliver_run opts h st bevs))
   \<and> transcription_callback (opts\<lparr>emitMode := Some Delta\<rparr>) (st\<lparr>isCancelledRef := False\<rparr>)
        (processedRef st) True =
       (st\<lparr>isCancelledRef := False, transcription := processedRef st,
           interimTranscription := []\<rparr>, [])
   \<and> transcription_callback (opts\<lparr>emitMode := Some Full\<rparr>) (st\<lparr>isCancelledRef := False\<rparr>) [] False =
       (st\<lparr>isCancelledRef := False, interimTranscription := []\<rparr>, [])
   \<and> OnTranscription [] f \<notin> set (snd (onresult s i rs))
   \<and> OnTranscription [] f \<notin> set (fst (snd (tryOpenAITranscription s' b r)))
   \<and> TranscriptionUpdate [] f
        \<notin> set (snd (run_callback_v2 opts st2 (map (\<lambda>(c, cs, g). (c # cs, g)) segs)))"
proof -
  have "[] \<notin> fst ` set (map (\<lambda>(c, cs, g). (c # cs, g)) segs)"
    by (auto simp: image_iff)
  then have v2: "TranscriptionUpdate [] f
      \<notin> set (snd (run_callback_v2 opts st2 (map (\<lambda>(c, cs, g). (c # cs, g)) segs)))"
    by (rule run_callback_v2_nonempty)
  have absorbed_delta: "transcription_callback (opts\<lparr>emitMode := Some Delta\<rparr>) (st\<lparr>isCancelledRef := False\<rparr>)
        (processedRef st) True =
       (st\<lparr>isCancelledRef := False, transcription := processedRef st,
           interimTranscription := []\<rparr>, [])"
    by (simp add: transcription_callback_def Let_def truthy_def startsWith_def slice_from_def)
  have absorbed_full: "transcription_callback (opts\<lparr>emitMode := Some Full\<rparr>) (st\<lparr>isCancelledRef := False\<rparr>) [] False =
       (st\<lparr>isCancelledRef := False, interimTranscription := []\<rparr>, [])"
    by (simp add: transcription_callback_def Let_def truthy_def)
  show ?thesis
    by (intro conjI run_callback_nonempty deliver_run_nonempty absorbed_delta absorbed_full
        onresult_nonempty tryOpenAITranscription_nonempty v2)
qed

text \<open>
  In \<open>segment\<close> mode the hook that receives segments passes a segment on without
  looking at it, so an empty first segment would be passed on as it is. Neither
  backend calls its callback with an empty text.
\<close>

lemma segment_mode_forwards_empty_segment:
  "snd (transcription_callback_v2 (opts\<lparr>emitMode := Some Segment\<rparr>)
          (st2\<lparr>isCancelledRef := False, transcriptionHistoryRef := []\<rparr>) [] is_final) =
     [TranscriptionUpdate [] is_final]"
  by (simp add: transcription_callback_v2_def Let_def separator_def)

section \<open>The finalized text in \<open>full\<close> mode\<close>

lemma endsWith_space:
  "endsWith h '' '' = (h \<noteq> [] \<and> last h = CHR '' '')"
  by (cases h rule: rev_cases) (auto simp: endsWith_def)

lemma startsWith_space:
  "startsWith t '' '' = (t \<noteq> [] \<and> hd t = CHR '' '')"
  by (cases t) (auto simp: startsWith_def)

lemma join_segment_separator:
  "h @ separator h t @ t = join_segment h t"
  by (auto simp: separator_def join_segment_def endsWith_space startsWith_space)

lemma transcription_callback_v2_history:
  "\<not> isCancelledRef st \<Longrightarrow>
     transcriptionHistoryRef (fst (transcription_callback_v2 opts st t g)) =
       (if g then join_segment (transcriptionHistoryRef st) t else transcriptionHistoryRef st)
     \<and> \<not> isCancelledRef (fst (transcription_callback_v2 opts st t g))"
  by (simp add: transcription_callback_v2_def Let_def join_segment_separator)

lemma run_callback_v2_history:
  "\<not> isCancelledRef st \<Longrightarrow>
     transcriptionHistoryRef (fst (run_callback_v2 opts st evs)) =
       joined_finals (transcriptionHistoryRef st) evs
     \<and> \<not> isCancelledRef (fst (run_callback_v2 opts st evs))"
proof (induction evs arbitrary: st)
  case Nil
  then show ?case by (simp add: joined_finals_def)
next
  case (Cons ev evs)
  obtain t g where ev: "ev = (t, g)" by (cases ev)
  from transcription_callback_v2_history [OF Cons.prems, of opts t g]
  have h: "transcriptionHistoryRef (fst (transcription_callback_v2 opts st t g)) =
       (if g then join_segment (transcriptionHistoryRef st) t else transcriptionHistoryRef st)"
    and c: "\<not> isCancelledRef (fst (transcription_callback_v2 opts st t g))" by simp_all
  from Cons.IH [OF c] h show ?case
    by (simp add: ev split_beta joined_finals_def)
qed

lemma joined_finals_snoc:
  "joined_finals h (evs @ [(t, True)]) = join_segment (joined_finals h evs) t"
  by (simp add: joined_finals_def)

lemma joined_finals_interims:
  "joined_finals h (map (\<lambda>s. (s, False)) interims) = h"
  by (simp add: joined_finals_def filter_map comp_def)

lemma transcription_callback_v2_full_final:
  "\<not> isCancelledRef st \<Longrightarrow>
   transcription_callback_v2 (opts\<lparr>emitMode := Some Full\<rparr>) st t True =
     (st\<lparr>transcriptionHistoryRef := join_segment (transcriptionHistoryRef st) t,
         transcription := join_segment (transcriptionHistoryRef st) t,
         interimTranscription := [],
         processedRef := join_segment (transcriptionHistoryRef st) t\<rparr>,
      if join_segment (transcriptionHistoryRef st) t = [] then []
      else [TranscriptionUpdate (join_segment (transcriptionHistoryRef st) t) True])"
  unfolding transcription_callback_v2_def Let_def join_segment_separator
  by (simp add: truthy_def)

lemma run_callback_not_cancelled:
  "\<not> isCancelledRef st \<Longrightarrow> \<not> isCancelledRef (fst (run_callback opts st evs))"
proof (induction evs arbitrary: st)
  case (Cons ev evs)
  obtain t g where ev: "ev = (t, g)" by (cases ev)
  from Cons.prems have "\<not> isCancelledRef (fst (transcription_callback opts st t g))"
    by (simp add: transcription_callback_isCancelledRef)
  from Cons.IH [OF this] show ?case
    by (simp add: ev split_beta)
qed simp

text \<open>
  The hook that receives segments, in \<open>full\<close> mode: after any run of events \<open>evs\<close> of
  a session, a final segment \<open>t\<close> is reported as the join of all finalized segments of
  \<open>evs\<close> and \<open>t\<close> onto the history the run started with (empty at the start of a
  session), and \<open>transcription\<close> is that text; interim events do not change the join.
  The hook of \<open>src/useVoiceTranscription.ts\<close> reports the final text \<open>t\<close> it is handed
  as it is, after any run of events. No call is made when the text is empty.
\<close>

lemma variant_final_text:
  "(let st1 = fst (run_callback_v2 (opts\<lparr>emitMode := Some Full\<rparr>) (st2\<lparr>isCancelledRef := False\<rparr>) evs);
        joined = joined_finals (transcriptionHistoryRef st2) (evs @ [(t, True)])
    in snd (transcription_callback_v2 (opts\<lparr>emitMode := Some Full\<rparr>) st1 t True) =
         (if joined = [] then [] else [TranscriptionUpdate joined True])
       \<and> transcription (fst (transcription_callback_v2 (opts\<lparr>emitMode := Some Full\<rparr>) st1 t True)) = joined)
   \<and> joined_finals h (map (\<lambda>s. (s, False)) interims @ [(t, True)]) = join_segment h t
   \<and> join_segment [] t = t
   \<and> (let st1 = fst (run_callback (opts\<lparr>emitMode := Some Full\<rparr>) (st\<lparr>isCancelledRef := False\<rparr>) evs)
      in snd (transcription_callback (opts\<lparr>emitMode := Some Full\<rparr>) st1 t True) =
           (if t = [] then [] else [TranscriptionUpdate t True])
         \<and> transcription (fst (transcription_callback (opts\<lparr>emitMode := Some Full\<rparr>) st1 t True)) = t)"
proof -
  let ?o = "opts\<lparr>emitMode := Some Full\<rparr>"
  define st1 where "st1 = fst (run_callback_v2 ?o (st2\<lparr>isCancelledRef := False\<rparr>) evs)"
  have "\<not> isCancelledRef (st2\<lparr>isCancelledRef := False\<rparr>)" by simp
  from run_callback_v2_history [OF this, of ?o evs]
  have hist: "transcriptionHistoryRef st1 = joined_finals (transcriptionHistoryRef st2) evs"
    and live: "\<not> isCancelledRef st1" by (simp_all add: st1_def)
  have v2: "snd (transcription_callback_v2 ?o st1 t True) =
         (if joined_finals (transcriptionHistoryRef st2) (evs @ [(t, True)]) = [] then []
          else [TranscriptionUpdate (joined_finals (transcriptionHistoryRef st2) (evs @ [(t, True)])) True])
       \<and> transcription (fst (transcription_callback_v2 ?o st1 t True)) =
           joined_finals (transcriptionHistoryRef st2) (evs @ [(t, True)])"
    by (simp add: transcription_callback_v2_full_final [OF live] hist joined_finals_snoc)
  define st1' where "st1' = fst (run_callback ?o (st\<lparr>isCancelledRef := False\<rparr>) evs)"
  have live': "\<not> isCancelledRef st1'"
    unfolding st1'_def by (rule run_callback_not_cancelled) simp
  have v1: "snd (transcription_callback ?o st1' t True) =
           (if t = [] then [] else [TranscriptionUpdate t True])
         \<and> transcription (fst (transcription_callback ?o st1' t True)) = t"
    using live' by (simp add: transcription_callback_def Let_def truthy_def)
  have j: "joined_finals h (map (\<lambda>s. (s, False)) interims @ [(t, True)]) = join_segment h t"
    by (simp add: joined_finals_snoc joined_finals_interims)
  have e: "join_segment [] t = t" by (simp add: join_segment_def)
  from v2 v1 j e show ?thesis
    by (simp add: st1_def st1'_def Let_def)
qed

text \<open>
  The on-device recognizer is what hands the hook of \<open>src/useVoiceTranscription.ts\<close>
  its text: \<open>onresult\<close> appends the finalized transcripts of a batch to
  \<open>fullTranscript\<close>, with nothing in between, and reports the whole.
\<close>

lemma split_results_concat:
  "split_results rs (a, b) =
     (a @ concat (map transcript (filter (\<lambda>r. \<not> isFinal r) rs)),
      b @ concat (map transcript (filter isFinal rs)))"
  by (induction rs arbitrary: a b) simp_all

lemma onresult_accumulates:
  "b_fullTranscript (fst (onresult s i rs)) =
     b_fullTranscript s @ concat (map transcript (filter isFinal (drop i rs)))
   \<and> snd (onresult s i rs) =
       (if concat (map transcript (filter (\<lambda>r. \<not> isFinal r) (drop i rs))) = [] then []
        else [OnTranscription
                (b_fullTranscript s @ concat (map transcript (filter (\<lambda>r. \<not> isFinal r) (drop i rs))))
                False])
       @ (if concat (map transcript (filter isFinal (drop i rs))) = [] then []
          else [OnTranscription
                  (b_fullTranscript s @ concat (map transcript (filter isFinal (drop i rs)))) True])"
  by (simp add: onresult_def split_results_concat truthy_def Let_def)

text \<open>
  The scenario of the specification: the on-device backend produces the interim text
  \<open>hello\<close> and then the final text \<open>hello world\<close>; the consumer sees both, and
  \<open>transcription\<close> ends as \<open>hello world\<close>.
\<close>

lemma scenario_hello_world:
  "deliver_run default_options browser_host recording_state
     [Recognition (RecognitionResult 0 [\<lparr>transcript = ''hello'', isFinal = False\<rparr>]),
      Recognition (RecognitionResult 0 [\<lparr>transcript = ''hello world'', isFinal = True\<rparr>])] =
   (recording_state
      \<lparr>transcription := ''hello world'',
       voiceServiceRef := map_option (\<lambda>svc. case svc of
            Browser b \<Rightarrow> Browser (b\<lparr>b_fullTranscript := ''hello world''\<rparr>) | OpenAI s \<Rightarrow> OpenAI s)
          (voiceServiceRef recording_state)\<rparr>,
    [TranscriptionUpdate ''hello'' False, TranscriptionUpdate ''hello world'' True])"
  by (simp add: recording_state_eq deliver_def onresult_def truthy_def transcription_callback_def
      default_options_def Let_def)

lemma finalized_transcripts_append:
  "finalized_transcripts (xs @ ys) = finalized_transcripts xs @ finalized_transcripts ys"
  by (induction xs rule: finalized_transcripts.induct) simp_all

lemma b_handle_fullTranscript:
  "b_fullTranscript (fst (b_handle h s ev)) = b_fullTranscript s @ finalized_transcripts [ev]"
proof (cases ev)
  case (RecognitionResult i rs)
  then show ?thesis by (simp add: onresult_accumulates)
next
  case (RecognitionError err)
  then show ?thesis by (simp add: onerror_def schedule_restart_def)
next
  case RecognitionEnd
  then show ?thesis by (simp add: onend_def schedule_restart_def)
next
  case RestartTimer
  then show ?thesis
    by (simp add: restart_timer_def createFreshRecognition_def initializeRecognition_def
        updateRecognitionLanguage_def Let_def split: option.splits)
qed

lemma transcription_callback_voiceServiceRef:
  "voiceServiceRef (fst (transcription_callback opts st t g)) = voiceServiceRef st"
  by (simp add: transcription_callback_def Let_def)

lemma forward_refs:
  "voiceServiceRef (fst (forward opts st effs)) = voiceServiceRef st
   \<and> isCancelledRef (fst (forward opts st effs)) = isCancelledRef st"
proof (induction effs arbitrary: st)
  case (Cons eff effs)
  show ?case
  proof (cases eff)
    case (OnTranscription t g)
    show ?thesis
      unfolding OnTranscription forward_OnTranscription fst_conv
      using Cons.IH [of "fst (transcription_callback opts st t g)"]
      by (simp add: transcription_callback_voiceServiceRef transcription_callback_isCancelledRef)
  qed (simp_all add: Cons.IH)
qed simp

lemma deliver_browser:
  "voiceServiceRef st = Some (Browser b) \<Longrightarrow>
     fst (deliver opts h st (Recognition ev)) =
       forward opts (st\<lparr>voiceServiceRef := Some (Browser (fst (b_handle h b ev)))\<rparr>)
         (snd (b_handle h b ev))"
  by (simp add: deliver_def split_beta)

lemma deliver_run_browser:
  "voiceServiceRef st = Some (Browser b) \<Longrightarrow> \<not> isCancelledRef st \<Longrightarrow>
     (\<exists>b1. voiceServiceRef (fst (deliver_run opts h st (map Recognition evs))) = Some (Browser b1)
           \<and> b_fullTranscript b1 = b_fullTranscript b @ finalized_transcripts evs)
     \<and> \<not> isCancelledRef (fst (deliver_run opts h st (map Recognition evs)))"
proof (induction evs arbitrary: st b)
  case Nil
  then show ?case by simp
next
  case (Cons ev evs)
  let ?b1 = "fst (b_handle h b ev)"
  let ?st1 = "fst (fst (deliver opts h st (Recognition ev)))"
  have ref: "voiceServiceRef ?st1 = Some (Browser ?b1)"
    and live: "\<not> isCancelledRef ?st1"
    using Cons.prems by (simp_all add: deliver_browser forward_refs)
  from Cons.IH [OF ref live]
  obtain b2 where b2: "voiceServiceRef (fst (deliver_run opts h ?st1 (map Recognition evs))) = Some (Browser b2)"
      "b_fullTranscript b2 = b_fullTranscript ?b1 @ finalized_transcripts evs"
    and live2: "\<not> isCancelledRef (fst (deliver_run opts h ?st1 (map Recognition evs)))"
    by blast
  have acc: "b_fullTranscript b2 = b_fullTranscript b @ finalized_transcripts (ev # evs)"
    using b2(2) b_handle_fullTranscript [of h b ev]
      finalized_transcripts_append [of "[ev]" evs] by simp
  have run: "fst (deliver_run opts h st (map Recognition (ev # evs))) =
      fst (deliver_run opts h ?st1 (map Recognition evs))"
    by (simp add: split_beta)
  show ?case
    unfolding run using b2(1) acc live2 by blast
qed

lemma forward_full_mode:
  "\<not> isCancelledRef st \<Longrightarrow>
   forward (opts\<lparr>emitMode := Some Full\<rparr>) st
     ((if x = [] then [] else [OnTranscription (p @ x) False])
      @ (if y = [] then [] else [OnTranscription (p @ y) True])) =
   ((if y = [] then (if x = [] then st else st\<lparr>interimTranscription := p @ x\<rparr>)
     else st\<lparr>transcription := p @ y, interimTranscription := []\<rparr>),
    (if x = [] then [] else [TranscriptionUpdate (p @ x) False])
      @ (if y = [] then [] else [TranscriptionUpdate (p @ y) True]))"
  by (simp add: transcription_callback_def Let_def truthy_def)


text \<open>
  The hook of \<open>src/useVoiceTranscription.ts\<close> behind the on-device recognizer, in
  \<open>full\<close> mode: after any run of recognizer events of a session, a result batch with
  finalized text is reported as the recognizer's text at the start of the run followed
  by all finalized transcripts of the session, with nothing between them.
\<close>

lemma on_device_final_text:
  "(let st1 = fst (deliver_run (opts\<lparr>emitMode := Some Full\<rparr>) h
                     (st\<lparr>voiceServiceRef := Some (Browser b), isCancelledRef := False\<rparr>)
                     (map Recognition evs));
        interim_text = concat (map transcript (filter (\<lambda>r. \<not> isFinal r) (drop i rs)));
        final_text = concat (map transcript (filter isFinal (drop i rs)));
        whole = b_fullTranscript b @ finalized_transcripts (evs @ [RecognitionResult i rs]);
        last_step = fst (deliver (opts\<lparr>emitMode := Some Full\<rparr>) h st1
                           (Recognition (RecognitionResult i rs)))
    in snd last_step =
         (if interim_text = [] then []
          else [TranscriptionUpdate (b_fullTranscript b @ finalized_transcripts evs @ interim_text) False])
         @ (if final_text = [] then [] else [TranscriptionUpdate whole True])
       \<and> transcription (fst last_step) = (if final_text = [] then transcription st1 else whole))"
proof -
  let ?o = "opts\<lparr>emitMode := Some Full\<rparr>"
  let ?st0 = "st\<lparr>voiceServiceRef := Some (Browser b), isCancelledRef := False\<rparr>"
  let ?st1 = "fst (deliver_run ?o h ?st0 (map Recognition evs))"
  define I where "I = concat (map transcript (filter (\<lambda>r. \<not> isFinal r) (drop i rs)))"
  define F where "F = concat (map transcript (filter isFinal (drop i rs)))"
  have "voiceServiceRef ?st0 = Some (Browser b)" and "\<not> isCancelledRef ?st0" by simp_all
  from deliver_run_browser [OF this, of ?o h evs]
  obtain b1 where ref: "voiceServiceRef ?st1 = Some (Browser b1)"
    and acc: "b_fullTranscript b1 = b_fullTranscript b @ finalized_transcripts evs"
    and live: "\<not> isCancelledRef ?st1"
    by blast
  let ?st1' = "?st1\<lparr>voiceServiceRef := Some (Browser (fst (onresult b1 i rs)))\<rparr>"
  have live': "\<not> isCancelledRef ?st1'" using live by simp
  have effs: "snd (b_handle h b1 (RecognitionResult i rs)) =
      (if I = [] then [] else [OnTranscription (b_fullTranscript b1 @ I) False])
      @ (if F = [] then [] else [OnTranscription (b_fullTranscript b1 @ F) True])"
    unfolding I_def F_def using onresult_accumulates [of b1 i rs] by simp
  have step: "fst (deliver ?o h ?st1 (Recognition (RecognitionResult i rs))) =
      forward ?o ?st1'
        ((if I = [] then [] else [OnTranscription (b_fullTranscript b1 @ I) False])
         @ (if F = [] then [] else [OnTranscription (b_fullTranscript b1 @ F) True]))"
    unfolding deliver_browser [OF ref] effs by simp
  have whole: "b_fullTranscript b @ finalized_transcripts (evs @ [RecognitionResult i rs]) =
      b_fullTranscript b1 @ F"
    by (simp add: finalized_transcripts_append acc F_def)
  have part: "b_fullTranscript b @ finalized_transcripts evs @ I = b_fullTranscript b1 @ I"
    by (simp add: acc)
  have calls: "snd (fst (deliver ?o h ?st1 (Recognition (RecognitionResult i rs)))) =
         (if I = [] then [] else [TranscriptionUpdate (b_fullTranscript b1 @ I) False])
         @ (if F = [] then [] else [TranscriptionUpdate (b_fullTranscript b1 @ F) True])"
    unfolding step forward_full_mode [OF live'] by simp
  have final: "transcription (fst (fst (deliver ?o h ?st1 (Recognition (RecognitionResult i rs))))) =
           (if F = [] then transcription ?st1 else b_fullTranscript b1 @ F)"
    unfolding step forward_full_mode [OF live'] by simp
  show ?thesis
    unfolding Let_def whole part I_def [symmetric] F_def [symmetric]
    using calls final by blast
qed

text \<open>
  Claim C1, as stated, fails for the hook of \<open>src/useVoiceTranscription.ts\<close>: no space
  is joined in. Behind the on-device recognizer, a session whose finalized transcripts
  are \<open>hello world\<close> and \<open>again\<close>, with an interim result in between, ends with the
  final text \<open>hello worldagain\<close>, where the join with single spaces is
  \<open>hello world again\<close>. On its own, the callback handed the final segments \<open>a\<close> and
  \<open>b\<close> reports \<open>b\<close> last, not \<open>a b\<close>.
\<close>

theorem full_mode_join_counterexample:
  "snd (deliver_run default_options browser_host recording_state
         [Recognition (RecognitionResult 0 [\<lparr>transcript = ''hello world'', isFinal = True\<rparr>]),
          Recognition (RecognitionResult 1 [\<lparr>transcript = ''hello world'', isFinal = True\<rparr>,
                                            \<lparr>transcript = ''ag'', isFinal = False\<rparr>]),
          Recognition (RecognitionResult 1 [\<lparr>transcript = ''hello world'', isFinal = True\<rparr>,
                                            \<lparr>transcript = ''again'', isFinal = True\<rparr>])]) =
     [TranscriptionUpdate ''hello world'' True, TranscriptionUpdate ''hello worldag'' False,
      TranscriptionUpdate ''hello worldagain'' True]
   \<and> joined_finals [] [(''hello world'', True), (''ag'', False), (''again'', True)] =
       ''hello world again''
   \<and> snd (run_callback default_options recording_state [(''a'', True), (''b'', True)]) =
       [TranscriptionUpdate ''a'' True, TranscriptionUpdate ''b'' True]
   \<and> joined_finals [] [(''a'', True), (''b'', True)] = ''a b''"
  by (simp add: recording_state_eq deliver_def onresult_def truthy_def transcription_callback_def
      default_options_def Let_def joined_finals_def join_segment_def)

text \<open>
  Claim C1, amended. In \<open>full\<close> mode the final text reported does not depend on the
  interim events before it. The hook of \<open>src/useVoiceTranscription.ts\<close> reports the
  text its backend hands over, which behind the on-device recognizer is the
  concatenation of all finalized transcripts of the session with nothing inserted; a
  session starts with that text empty. The hook that receives segments reports the
  concatenation of all finalized segments with single-space joins. No call is made for
  an empty text.
\<close>

theorem full_mode_final_text:
  "(let st1 = fst (deliver_run (opts\<lparr>emitMode := Some Full\<rparr>) hst
                     (st\<lparr>voiceServiceRef := Some (Browser b), isCancelledRef := False\<rparr>)
                     (map Recognition revs));
        interim_text = concat (map transcript (filter (\<lambda>r. \<not> isFinal r) (drop i rs)));
        final_text = concat (map transcript (filter isFinal (drop i rs)));
        whole = b_fullTranscript b @ finalized_transcripts (revs @ [RecognitionResult i rs]);
        last_step = fst (deliver (opts\<lparr>emitMode := Some Full\<rparr>) hst st1
                           (Recognition (RecognitionResult i rs)))
    in snd last_step =
         (if interim_text = [] then []
          else [TranscriptionUpdate (b_fullTranscript b @ finalized_transcripts revs @ interim_text) False])
         @ (if final_text = [] then [] else [TranscriptionUpdate whole True])
       \<and> transcription (fst last_step) = (if final_text = [] then transcription st1 else whole))
   \<and> b_fullTranscript (fst (b_startRecording hst (b\<lparr>b_recognition := True\<rparr>))) = []
   \<and> (let st1 = fst (run_callback_v2 (opts\<lparr>emitMode := Some Full\<rparr>) (st2\<lparr>isCancelledRef := False\<rparr>) evs);
        joined = joined_finals (transcriptionHistoryRef st2) (evs @ [(t, True)])
    in snd (transcription_callback_v2 (opts\<lparr>emitMode := Some Full\<rparr>) st1 t True) =
         (if joined = [] then [] else [TranscriptionUpdate joined True])
       \<and> transcription (fst (transcription_callback_v2 (opts\<lparr>emitMode := Some Full\<rparr>) st1 t True)) = joined)
   \<and> joined_finals h (map (\<lambda>s. (s, False)) interims @ [(t, True)]) = join_segment h t
   \<and> join_segment [] t = t
   \<and> (let st1 = fst (run_callback (opts\<lparr>emitMode := Some Full\<rparr>) (st\<lparr>isCancelledRef := False\<rparr>) evs)
      in snd (transcription_callback (opts\<lparr>emitMode := Some Full\<rparr>) st1 t True) =
           (if t = [] then [] else [TranscriptionUpdate t True])
         \<and> transcription (fst (transcription_callback (opts\<lparr>emitMode := Some Full\<rparr>) st1 t True)) = t)"
proof -
  have start: "b_fullTranscript (fst (b_startRecording hst (b\<lparr>b_recognition := True\<rparr>))) = []"
    by (simp add: b_startRecording_def updateRecognitionLanguage_def Let_def split: option.splits)
  show ?thesis
    by (rule conjI [OF on_device_final_text conjI [OF start variant_final_text]])
qed

section \<open>The delta of \<open>delta\<close> mode\<close>

text \<open>
  Claim C7. In \<open>delta\<close> mode the callback compares the new text with \<open>processedRef\<close>,
  the text of the previous event. When the previous text is a prefix of the new one,
  the call to the consumer carries only what follows that prefix; when it is not, the
  call carries the whole new text. (A delta that is the empty string causes no call.)
  After the event, interim or final, \<open>processedRef\<close> is the new text. In the hook that
  receives segments the new text is the history joined with the segment.
\<close>

theorem delta_mode_prefix_comparison:
  "snd (transcription_callback (opts\<lparr>emitMode := Some Delta\<rparr>)
          (st\<lparr>isCancelledRef := False\<rparr>) t is_final) =
     (if prefix (processedRef st) t
      then (if drop (length (processedRef st)) t = [] then []
            else [TranscriptionUpdate (drop (length (processedRef st)) t) is_final])
      else (if t = [] then [] else [TranscriptionUpdate t is_final]))
   \<and> processedRef (fst (transcription_callback (opts\<lparr>emitMode := Some Delta\<rparr>)
                          (st\<lparr>isCancelledRef := False\<rparr>) t is_final)) = t
   \<and> snd (transcription_callback_v2 (opts\<lparr>emitMode := Some Delta\<rparr>)
          (st2\<lparr>isCancelledRef := False\<rparr>) t is_final) =
     (if prefix (processedRef st2) (join_segment (transcriptionHistoryRef st2) t)
      then (if drop (length (processedRef st2)) (join_segment (transcriptionHistoryRef st2) t) = [] then []
            else [TranscriptionUpdate
                    (drop (length (processedRef st2)) (join_segment (transcriptionHistoryRef st2) t))
                    is_final])
      else (if join_segment (transcriptionHistoryRef st2) t = [] then []
            else [TranscriptionUpdate (join_segment (transcriptionHistoryRef st2) t) is_final]))
   \<and> processedRef (fst (transcription_callback_v2 (opts\<lparr>emitMode := Some Delta\<rparr>)
                          (st2\<lparr>isCancelledRef := False\<rparr>) t is_final)) =
       join_segment (transcriptionHistoryRef st2) t"
proof -
  have v1: "snd (transcription_callback (opts\<lparr>emitMode := Some Delta\<rparr>)
          (st\<lparr>isCancelledRef := False\<rparr>) t is_final) =
     (if prefix (processedRef st) t
      then (if drop (length (processedRef st)) t = [] then []
            else [TranscriptionUpdate (drop (length (processedRef st)) t) is_final])
      else (if t = [] then [] else [TranscriptionUpdate t is_final]))
   \<and> processedRef (fst (transcription_callback (opts\<lparr>emitMode := Some Delta\<rparr>)
                          (st\<lparr>isCancelledRef := False\<rparr>) t is_final)) = t"
    by (simp add: transcription_callback_def Let_def truthy_def startsWith_def slice_from_def)
  have v2: "snd (transcription_callback_v2 (opts\<lparr>emitMode := Some Delta\<rparr>)
          (st2\<lparr>isCancelledRef := False\<rparr>) t is_final) =
     (if prefix (processedRef st2) (join_segment (transcriptionHistoryRef st2) t)
      then (if drop (length (processedRef st2)) (join_segment (transcriptionHistoryRef st2) t) = [] then []
            else [TranscriptionUpdate
                    (drop (length (processedRef st2)) (join_segment (transcriptionHistoryRef st2) t))
                    is_final])
      else (if join_segment (transcriptionHistoryRef st2) t = [] then []
            else [TranscriptionUpdate (join_segment (transcriptionHistoryRef st2) t) is_final]))
   \<and> processedRef (fst (transcription_callback_v2 (opts\<lparr>emitMode := Some Delta\<rparr>)
                          (st2\<lparr>isCancelledRef := False\<rparr>) t is_final)) =
       join_segment (transcriptionHistoryRef st2) t"
    unfolding transcription_callback_v2_def Let_def
    by (simp add: join_segment_separator truthy_def startsWith_def slice_from_def del: append_is_Nil_conv Nil_is_append_conv)
  from v1 v2 show ?thesis by blast
qed

section \<open>The restart cap of the on-device recognizer\<close>

lemma restart_attempts_append:
  "restart_attempts (xs @ ys) = restart_attempts xs + restart_attempts ys"
  by (induction xs rule: restart_attempts.induct) simp_all

lemma recognizer_starts_append:
  "recognizer_starts (xs @ ys) = recognizer_starts xs + recognizer_starts ys"
  by (induction xs rule: recognizer_starts.induct) simp_all

lemma b_handle_counts:
  "b_restartCount (fst (b_handle h s ev)) = b_restartCount s + restart_attempts (snd (b_handle h s ev))
   \<and> (b_restartCount s \<le> maxRestarts \<longrightarrow> b_restartCount (fst (b_handle h s ev)) \<le> maxRestarts)
   \<and> recognizer_starts (snd (b_handle h s ev)) + b_pendingRestarts (fst (b_handle h s ev))
        \<le> b_pendingRestarts s + restart_attempts (snd (b_handle h s ev))"
proof (cases ev)
  case (RecognitionResult i rs)
  then show ?thesis
    by (simp add: onresult_def Let_def split_beta)
next
  case (RecognitionError err)
  then show ?thesis
    by (simp add: onerror_def schedule_restart_def)
next
  case RecognitionEnd
  then show ?thesis
    by (simp add: onend_def schedule_restart_def)
next
  case RestartTimer
  then show ?thesis
    by (simp add: restart_timer_def createFreshRecognition_def initializeRecognition_def
        updateRecognitionLanguage_def Let_def split: option.splits)
qed

lemma b_run_Cons:
  "b_run h s (ev # evs) =
     (fst (b_run h (fst (b_handle h s ev)) evs),
      snd (b_handle h s ev) @ snd (b_run h (fst (b_handle h s ev)) evs))"
  by (simp add: split_beta)

lemma b_run_counts:
  "b_restartCount (fst (b_run h s evs)) = b_restartCount s + restart_attempts (snd (b_run h s evs))
   \<and> (b_restartCount s \<le> maxRestarts \<longrightarrow> b_restartCount (fst (b_run h s evs)) \<le> maxRestarts)
   \<and> recognizer_starts (snd (b_run h s evs)) + b_pendingRestarts (fst (b_run h s evs))
        \<le> b_pendingRestarts s + restart_attempts (snd (b_run h s evs))"
proof (induction evs arbitrary: s)
  case Nil
  show ?case by simp
next
  case (Cons ev evs)
  let ?s1 = "fst (b_handle h s ev)"
  let ?e1 = "snd (b_handle h s ev)"
  let ?s2 = "fst (b_run h ?s1 evs)"
  let ?e2 = "snd (b_run h ?s1 evs)"
  from b_handle_counts [of h s ev]
  have s1: "b_restartCount ?s1 = b_restartCount s + restart_attempts ?e1"
    and s2: "b_restartCount s \<le> maxRestarts \<longrightarrow> b_restartCount ?s1 \<le> maxRestarts"
    and s3: "recognizer_starts ?e1 + b_pendingRestarts ?s1 \<le> b_pendingRestarts s + restart_attempts ?e1"
    by blast+
  from Cons.IH [of ?s1]
  have r1: "b_restartCount ?s2 = b_restartCount ?s1 + restart_attempts ?e2"
    and r2: "b_restartCount ?s1 \<le> maxRestarts \<longrightarrow> b_restartCount ?s2 \<le> maxRestarts"
    and r3: "recognizer_starts ?e2 + b_pendingRestarts ?s2 \<le> b_pendingRestarts ?s1 + restart_attempts ?e2"
    by blast+
  have a: "b_restartCount ?s2 = b_restartCount s + (restart_attempts ?e1 + restart_attempts ?e2)"
    using s1 r1 by linarith
  have b: "b_restartCount s \<le> maxRestarts \<longrightarrow> b_restartCount ?s2 \<le> maxRestarts"
    using s2 r2 by blast
  have c: "(recognizer_starts ?e1 + recognizer_starts ?e2) + b_pendingRestarts ?s2
        \<le> b_pendingRestarts s + (restart_attempts ?e1 + restart_attempts ?e2)"
    using s3 r3 by linarith
  from a b c show ?case
    unfolding b_run_Cons fst_conv snd_conv restart_attempts_append recognizer_starts_append
    by blast
qed

lemma session_start_counters:
  "b_restartCount (fst (b_startRecording h (b_setLanguage h lang (new_BrowserVoiceInputService h)))) = 0
   \<and> b_pendingRestarts (fst (b_startRecording h (b_setLanguage h lang (new_BrowserVoiceInputService h)))) = 0"
  by (simp add: b_startRecording_def b_setLanguage_def new_BrowserVoiceInputService_def
      initializeRecognition_def updateRecognitionLanguage_def Let_def split: option.splits)

text \<open>
  Claim C2. A restart is attempted when \<open>onerror\<close> (for any code but \<open>aborted\<close>) or
  \<open>onend\<close> finds the service recording and \<open>restartCount\<close> below \<open>maxRestarts\<close>, which
  is 10: the counter is incremented and a timer is set. In a session (from
  \<open>startRecording\<close> on the service the factory made, through any host events) at most
  10 restarts are attempted and at most 10 fresh recognizers are started. Once the
  counter is 10 it stays 10, no event sets another timer, and with no timer pending no
  recognizer is started again.
\<close>

theorem restart_cap:
  "restart_attempts (snd (b_run h
       (fst (b_startRecording h (b_setLanguage h lang (new_BrowserVoiceInputService h)))) evs)) \<le> 10
   \<and> recognizer_starts (snd (b_run h
       (fst (b_startRecording h (b_setLanguage h lang (new_BrowserVoiceInputService h)))) evs)) \<le> 10
   \<and> restart_attempts (snd (b_run h (s\<lparr>b_restartCount := 10\<rparr>) evs)) = 0
   \<and> b_restartCount (fst (b_run h (s\<lparr>b_restartCount := 10\<rparr>) evs)) = 10
   \<and> recognizer_starts (snd (b_run h (s\<lparr>b_restartCount := 10, b_pendingRestarts := 0\<rparr>) evs)) = 0
   \<and> maxRestarts = 10"
proof -
  let ?s0 = "fst (b_startRecording h (b_setLanguage h lang (new_BrowserVoiceInputService h)))"
  have z: "b_restartCount ?s0 = 0" and p: "b_pendingRestarts ?s0 = 0"
    using session_start_counters [of h lang] by simp_all
  have a: "restart_attempts (snd (b_run h ?s0 evs)) \<le> 10"
    using b_run_counts [of h ?s0 evs] z by (simp add: maxRestarts_def)
  have b: "recognizer_starts (snd (b_run h ?s0 evs)) \<le> 10"
    using b_run_counts [of h ?s0 evs] a p by simp
  have c: "restart_attempts (snd (b_run h (s\<lparr>b_restartCount := 10\<rparr>) evs)) = 0"
    using b_run_counts [of h "s\<lparr>b_restartCount := 10\<rparr>" evs] by (simp add: maxRestarts_def)
  have d: "b_restartCount (fst (b_run h (s\<lparr>b_restartCount := 10\<rparr>) evs)) = 10"
    using b_run_counts [of h "s\<lparr>b_restartCount := 10\<rparr>" evs] c by simp
  have c': "restart_attempts (snd (b_run h (s\<lparr>b_restartCount := 10, b_pendingRestarts := 0\<rparr>) evs)) = 0"
    using b_run_counts [of h "s\<lparr>b_restartCount := 10, b_pendingRestarts := 0\<rparr>" evs]
    by (simp add: maxRestarts_def)
  have e: "recognizer_starts (snd (b_run h (s\<lparr>b_restartCount := 10, b_pendingRestarts := 0\<rparr>) evs)) = 0"
    using b_run_counts [of h "s\<lparr>b_restartCount := 10, b_pendingRestarts := 0\<rparr>" evs] c'
    by simp
  from a b c d e show ?thesis
    by (simp add: maxRestarts_def)
qed

text \<open>
  The cap is reached: eleven \<open>end\<close> events and an error in one session make exactly
  ten attempts.
\<close>

lemma restart_cap_reached:
  "restart_attempts (snd (b_run browser_host
       (fst (b_startRecording browser_host (b_setLanguage browser_host ''auto''
             (new_BrowserVoiceInputService browser_host))))
       [RecognitionEnd, RecognitionEnd, RecognitionEnd, RecognitionEnd, RecognitionEnd, RecognitionEnd,
        RecognitionEnd, RecognitionEnd, RecognitionEnd, RecognitionEnd, RecognitionEnd, RecognitionError ''network''])) = 10"
  by (simp add: b_startRecording_def b_setLanguage_def new_BrowserVoiceInputService_def
      initializeRecognition_def updateRecognitionLanguage_def Let_def browser_host_def
      onend_def onerror_def schedule_restart_def maxRestarts_def truthy_def)


section \<open>Properties of the cloud recognizer\<close>

lemma callback_texts_append:
  "callback_texts (xs @ ys) = callback_texts xs @ callback_texts ys"
  by (induction xs rule: callback_texts.induct) simp_all

lemma api_requests_append:
  "api_requests (xs @ ys) = api_requests xs @ api_requests ys"
  by (induction xs rule: api_requests.induct) simp_all

lemma tryOpenAITranscription_thrown:
  "snd (snd (tryOpenAITranscription s b r)) = None"
  by (simp add: tryOpenAITranscription_def Let_def split: api_response.splits)

lemma tryOpenAITranscription_texts:
  "callback_texts (fst (snd (tryOpenAITranscription s b r))) = [] \<or>
   (\<exists>t. callback_texts (fst (snd (tryOpenAITranscription s b r))) = [t]
        \<and> t \<notin> o_processedTranscriptions s
        \<and> t \<in> o_processedTranscriptions (fst (tryOpenAITranscription s b r)))"
  by (simp add: tryOpenAITranscription_def Let_def split: api_response.splits)

lemma tryOpenAITranscription_processed_mono:
  "o_processedTranscriptions s \<subseteq> o_processedTranscriptions (fst (tryOpenAITranscription s b r))"
  by (auto simp: tryOpenAITranscription_def Let_def split: api_response.splits)

lemma submit_all_Cons:
  "submit_all s ((b, r) # subs) =
     (fst (submit_all (fst (tryOpenAITranscription s b r)) subs),
      fst (snd (tryOpenAITranscription s b r)) @ snd (submit_all (fst (tryOpenAITranscription s b r)) subs))"
  by (simp add: split_beta)

lemma submit_all_texts:
  "distinct (callback_texts (snd (submit_all s subs)))
   \<and> set (callback_texts (snd (submit_all s subs))) \<inter> o_processedTranscriptions s = {}
   \<and> o_processedTranscriptions s \<subseteq> o_processedTranscriptions (fst (submit_all s subs))"
proof (induction subs arbitrary: s)
  case Nil
  show ?case by simp
next
  case (Cons sub subs)
  obtain b r where sub: "sub = (b, r)" by (cases sub)
  let ?s1 = "fst (tryOpenAITranscription s b r)"
  let ?t1 = "callback_texts (fst (snd (tryOpenAITranscription s b r)))"
  let ?t2 = "callback_texts (snd (submit_all ?s1 subs))"
  from Cons.IH [of ?s1]
  have d2: "distinct ?t2"
    and i2: "set ?t2 \<inter> o_processedTranscriptions ?s1 = {}"
    and m2: "o_processedTranscriptions ?s1 \<subseteq> o_processedTranscriptions (fst (submit_all ?s1 subs))"
    by blast+
  note m1 = tryOpenAITranscription_processed_mono [of s b r]
  from tryOpenAITranscription_texts [of s b r]
  have "distinct (?t1 @ ?t2) \<and> set (?t1 @ ?t2) \<inter> o_processedTranscriptions s = {}"
  proof
    assume "?t1 = []"
    with d2 i2 m1 show ?thesis by auto
  next
    assume "\<exists>t. ?t1 = [t] \<and> t \<notin> o_processedTranscriptions s \<and> t \<in> o_processedTranscriptions ?s1"
    then obtain t where "?t1 = [t]" "t \<notin> o_processedTranscriptions s" "t \<in> o_processedTranscriptions ?s1"
      by blast
    with d2 i2 m1 show ?thesis by auto
  qed
  with m1 m2 show ?case
    unfolding sub submit_all_Cons fst_conv snd_conv callback_texts_append
    by blast
qed

lemma distinct_count_list_le:
  "distinct xs \<Longrightarrow> count_list xs x \<le> Suc 0"
  by (induction xs) auto

lemma transcribeAudio_later_chunk:
  "0 < o_chunkCounter s \<Longrightarrow>
     transcribeAudio s b r = (s\<lparr>o_chunkCounter := o_chunkCounter s + 1\<rparr>, [], None)"
  by (simp add: transcribeAudio_def Let_def)

lemma send_all_later_chunks:
  "0 < o_chunkCounter s \<Longrightarrow> fst (snd (send_all s chunks)) = [] \<and> snd (snd (send_all s chunks)) = []"
proof (induction chunks arbitrary: s)
  case (Cons chunk chunks)
  obtain b r where chunk: "chunk = (b, r)" by (cases chunk)
  have "0 < o_chunkCounter (s\<lparr>o_chunkCounter := o_chunkCounter s + 1\<rparr>)" by simp
  from Cons.IH [OF this] show ?case
    by (simp add: chunk sendAudioChunk_def transcribeAudio_later_chunk [OF Cons.prems] split_beta)
qed simp

lemma transcribeAudio_thrown:
  "snd (snd (transcribeAudio s b r)) = None"
  by (simp add: transcribeAudio_def Let_def tryOpenAITranscription_thrown)

lemma transcribeAudio_counter:
  "o_chunkCounter (fst (transcribeAudio s b r)) = o_chunkCounter s + 1"
  by (simp add: transcribeAudio_def Let_def tryOpenAITranscription_def split: api_response.splits)

lemma transcribeAudio_requests:
  "map req_file (api_requests (fst (snd (transcribeAudio s b r)))) =
     (if o_chunkCounter s = 0 \<and> 10000 \<le> blob_size b \<and> mime_supported (blob_type b) then [b] else [])"
  by (simp add: transcribeAudio_def Let_def tryOpenAITranscription_def split: api_response.splits)

lemma send_all_thrown:
  "snd (snd (send_all s chunks)) = []"
proof (induction chunks arbitrary: s)
  case (Cons chunk chunks)
  obtain b r where chunk: "chunk = (b, r)" by (cases chunk)
  show ?case
    using Cons.IH transcribeAudio_thrown [of s b r]
    by (simp add: chunk sendAudioChunk_def split_beta)
qed simp

lemma send_all_isCurrentlyRecording:
  "o_isCurrentlyRecording (fst (send_all s chunks)) = o_isCurrentlyRecording s"
proof (induction chunks arbitrary: s)
  case (Cons chunk chunks)
  obtain b r where chunk: "chunk = (b, r)" by (cases chunk)
  have "o_isCurrentlyRecording (fst (transcribeAudio s b r)) = o_isCurrentlyRecording s"
    by (simp add: transcribeAudio_def Let_def tryOpenAITranscription_def split: api_response.splits)
  with Cons.IH show ?case
    by (simp add: chunk sendAudioChunk_def split_beta)
qed simp

lemma o_startRecording_resets:
  "o_processedTranscriptions (fst (o_startRecording h s)) = {}
   \<and> o_chunkCounter (fst (o_startRecording h s)) = 0"
  by (simp add: o_startRecording_def Let_def split: option.splits)

lemma send_all_Cons:
  "send_all s ((b, r) # chunks) =
     (fst (send_all (fst (transcribeAudio s b r)) chunks),
      fst (snd (transcribeAudio s b r)) @ fst (snd (send_all (fst (transcribeAudio s b r)) chunks)),
      (case snd (snd (transcribeAudio s b r)) of None \<Rightarrow> [] | Some e \<Rightarrow> [e])
        @ snd (snd (send_all (fst (transcribeAudio s b r)) chunks)))"
  by (simp add: sendAudioChunk_def split_beta)

text \<open>
  Claim C5. In a session of the cloud recognizer only the first chunk handed to
  \<open>sendAudioChunk\<close> can be submitted to the transcription API, and it is when it passes
  the size and MIME-type checks. Every later chunk of the session does nothing: no
  request and no callback. No call throws, and the service goes on recording.
\<close>

theorem only_first_chunk_submitted:
  "map req_file (api_requests (fst (snd
       (send_all (fst (o_startRecording h s)) ((b, r) # later))))) =
     (if 10000 \<le> blob_size b \<and> mime_supported (blob_type b) then [b] else [])
   \<and> fst (snd (send_all (fst (send_all (fst (o_startRecording h s)) [(b, r)])) later)) = []
   \<and> snd (snd (send_all (fst (o_startRecording h s)) chunks)) = []
   \<and> o_isCurrentlyRecording (fst (send_all (fst (o_startRecording h s)) chunks)) =
       o_isCurrentlyRecording (fst (o_startRecording h s))"
proof -
  let ?s0 = "fst (o_startRecording h s)"
  let ?s1 = "fst (transcribeAudio ?s0 b r)"
  have c0: "o_chunkCounter ?s0 = 0"
    using o_startRecording_resets [of h s] by simp
  have c1: "0 < o_chunkCounter ?s1"
    by (simp add: transcribeAudio_counter)
  have later: "fst (snd (send_all ?s1 later)) = []"
    using send_all_later_chunks [OF c1] by simp
  have a: "map req_file (api_requests (fst (snd (send_all ?s0 ((b, r) # later))))) =
     (if 10000 \<le> blob_size b \<and> mime_supported (blob_type b) then [b] else [])"
    unfolding send_all_Cons fst_conv snd_conv later
    using transcribeAudio_requests [of ?s0 b r] c0 by simp
  have b: "fst (snd (send_all (fst (send_all ?s0 [(b, r)])) later)) = []"
    using later by (simp add: sendAudioChunk_def split_beta)
  from a b send_all_thrown [of ?s0 chunks] send_all_isCurrentlyRecording [of ?s0 chunks]
  show ?thesis by blast
qed

text \<open>
  Claim C4. A transcript that is already in \<open>processedTranscriptions\<close> is discarded:
  the request has been made, the state is unchanged and the callback is not called. So
  in one session no transcript reaches the callback twice, whether the answers come
  through \<open>tryOpenAITranscription\<close> directly or through \<open>sendAudioChunk\<close>; and
  \<open>startRecording\<close> empties the set.
\<close>

theorem duplicate_transcript_discarded:
  "tryOpenAITranscription (s\<lparr>o_processedTranscriptions := insert t (o_processedTranscriptions s)\<rparr>)
       b (HttpResponse True status t) =
     (s\<lparr>o_processedTranscriptions := insert t (o_processedTranscriptions s)\<rparr>,
      [ApiRequest \<lparr> req_file = b,
                    req_extension = (if str_includes (blob_type b) ''mp4'' then ''mp4''
                                     else if str_includes (blob_type b) ''wav'' then ''wav''
                                     else ''webm''),
                    req_model = ''whisper-1'', req_language = getOpenAILanguageCode s,
                    req_response_format = ''text'', req_bearer = o_apiKey s \<rparr>],
      None)
   \<and> count_list (callback_texts (snd (submit_all (fst (o_startRecording h s)) subs))) t \<le> 1
   \<and> count_list (callback_texts (fst (snd (send_all (fst (o_startRecording h s)) chunks)))) t \<le> 1
   \<and> o_processedTranscriptions (fst (o_startRecording h s)) = {}"
proof -
  have a: "tryOpenAITranscription (s\<lparr>o_processedTranscriptions := insert t (o_processedTranscriptions s)\<rparr>)
       b (HttpResponse True status t) =
     (s\<lparr>o_processedTranscriptions := insert t (o_processedTranscriptions s)\<rparr>,
      [ApiRequest \<lparr> req_file = b,
                    req_extension = (if str_includes (blob_type b) ''mp4'' then ''mp4''
                                     else if str_includes (blob_type b) ''wav'' then ''wav''
                                     else ''webm''),
                    req_model = ''whisper-1'', req_language = getOpenAILanguageCode s,
                    req_response_format = ''text'', req_bearer = o_apiKey s \<rparr>],
      None)"
    by (simp add: tryOpenAITranscription_def Let_def getOpenAILanguageCode_def)
  let ?s0 = "fst (o_startRecording h s)"
  have b: "count_list (callback_texts (snd (submit_all ?s0 subs))) t \<le> 1"
    using submit_all_texts [of ?s0 subs] distinct_count_list_le by fastforce
  have c: "count_list (callback_texts (fst (snd (send_all ?s0 chunks)))) t \<le> 1"
  proof (cases chunks)
    case Nil
    then show ?thesis by simp
  next
    case (Cons chunk later)
    obtain b' r' where chunk: "chunk = (b', r')" by (cases chunk)
    let ?s1 = "fst (transcribeAudio ?s0 b' r')"
    have "0 < o_chunkCounter ?s1" by (simp add: transcribeAudio_counter)
    from send_all_later_chunks [OF this]
    have later: "fst (snd (send_all ?s1 later)) = []" by simp
    have "callback_texts (fst (snd (transcribeAudio ?s0 b' r'))) = []
        \<or> (\<exists>u. callback_texts (fst (snd (transcribeAudio ?s0 b' r'))) = [u])"
      using tryOpenAITranscription_texts [of "?s0\<lparr>o_chunkCounter := o_chunkCounter ?s0 + 1\<rparr>" b' r']
      by (auto simp: transcribeAudio_def Let_def)
    then show ?thesis
      unfolding Cons chunk send_all_Cons fst_conv snd_conv later
      by auto
  qed
  from a b c o_startRecording_resets [of h s] show ?thesis by blast
qed

text \<open>
  The scenario of the specification: the same transcript answered twice in a session
  reaches the callback once.
\<close>

lemma duplicate_transcript_example:
  "callback_texts (snd (submit_all cloud_session
      [(unsigned_chunk, HttpResponse True 200 ''testing one two''),
       (unsigned_chunk, HttpResponse True 200 ''testing one two'')])) = [''testing one two'']"
  by (simp add: cloud_session_def o_startRecording_def cloud_host_def o_setLanguage_def
      new_OpenAIVoiceInputService_def tryOpenAITranscription_def Let_def truthy_def trim_def
      js_whitespace_def)

lemma tryOpenAITranscription_callbacks_le_requests:
  "length (callback_texts (fst (snd (tryOpenAITranscription s b r))))
     \<le> length (api_requests (fst (snd (tryOpenAITranscription s b r))))"
  by (simp add: tryOpenAITranscription_def Let_def split: api_response.splits)

lemma transcribeAudio_callbacks_le_requests:
  "length (callback_texts (fst (snd (transcribeAudio s b r))))
     \<le> length (api_requests (fst (snd (transcribeAudio s b r))))"
  by (simp add: transcribeAudio_def Let_def tryOpenAITranscription_callbacks_le_requests)

lemma service_handle_DataAvailable_thrown:
  "snd (snd (service_handle h svc (DataAvailable b r))) = None"
  by (cases svc) (simp_all add: sendAudioChunk_def transcribeAudio_thrown split_beta)

lemma deliver_DataAvailable_thrown:
  "snd (deliver opts h st (DataAvailable b r)) = None"
  using service_handle_DataAvailable_thrown
  by (simp add: deliver_def split_beta split: option.splits)

lemma deliver_no_error:
  "ErrorCallback m \<notin> set (snd (fst (deliver opts h st ev)))"
  by (simp add: deliver_def forward_no_error split: option.splits prod.splits)

text \<open>
  Claim C6, as stated, fails on the container signature. \<open>transcribeAudio\<close> checks the
  size and the MIME type of a chunk and never reads its bytes; \<open>validateAudioBlob\<close>,
  which reads them, is not called. A first chunk of 20000 bytes typed \<open>audio/webm\<close>
  that carries no signature is submitted, and a first chunk that starts with the WebM
  magic but has no MIME type is not.
\<close>

theorem unsigned_chunk_submitted:
  "\<not> has_container_signature unsigned_chunk
   \<and> map req_file (api_requests (fst (snd
        (transcribeAudio cloud_session unsigned_chunk (HttpResponse True 200 ''hello''))))) =
       [unsigned_chunk]
   \<and> has_container_signature untyped_webm_chunk
   \<and> api_requests (fst (snd
        (transcribeAudio cloud_session untyped_webm_chunk (HttpResponse True 200 ''hello'')))) = []"
proof -
  have c0: "o_chunkCounter cloud_session = 0"
    using o_startRecording_resets by (simp add: cloud_session_def)
  have a: "\<not> has_container_signature unsigned_chunk"
    by (simp add: has_container_signature_def unsigned_chunk_def mp4_signature_def)
  have b: "has_container_signature untyped_webm_chunk"
    by (simp add: has_container_signature_def untyped_webm_chunk_def)
  have m: "mime_supported ''audio/webm''"
    by (simp add: mime_supported_def truthy_def)
  have c: "map req_file (api_requests (fst (snd
        (transcribeAudio cloud_session unsigned_chunk (HttpResponse True 200 ''hello''))))) =
       [unsigned_chunk]"
    unfolding transcribeAudio_requests using c0 m by (simp add: unsigned_chunk_def)
  have d: "api_requests (fst (snd
        (transcribeAudio cloud_session untyped_webm_chunk (HttpResponse True 200 ''hello'')))) = []"
    by (simp add: transcribeAudio_def Let_def untyped_webm_chunk_def mime_supported_def truthy_def)
  from a b c d show ?thesis by blast
qed

text \<open>
  Claim C6, amended. A chunk is submitted only when it is the first of the session, has
  at least 10000 bytes and a MIME type that names webm, mp4 or wav. The callback is
  called only after a request was made; an answer that is not \<open>ok\<close> and a rejected
  \<open>fetch\<close> call no callback. \<open>transcribeAudio\<close> never throws, and a \<open>dataavailable\<close>
  event delivered to the hook's service throws nothing and never calls the error
  callback.
\<close>

theorem chunk_validation_and_failure_policy:
  "map req_file (api_requests (fst (snd (transcribeAudio s b r)))) =
     (if o_chunkCounter s = 0 \<and> 10000 \<le> blob_size b \<and> mime_supported (blob_type b)
      then [b] else [])
   \<and> length (callback_texts (fst (snd (transcribeAudio s b r))))
       \<le> length (api_requests (fst (snd (transcribeAudio s b r))))
   \<and> callback_texts (fst (snd (transcribeAudio s b (HttpResponse False status body)))) = []
   \<and> callback_texts (fst (snd (transcribeAudio s b (FetchRejects e)))) = []
   \<and> snd (snd (transcribeAudio s b r)) = None
   \<and> snd (deliver opts h st (DataAvailable b r)) = None
   \<and> ErrorCallback m \<notin> set (snd (fst (deliver opts h st (DataAvailable b r))))"
proof -
  have a: "callback_texts (fst (snd (transcribeAudio s b (HttpResponse False status body)))) = []"
    by (simp add: transcribeAudio_def Let_def tryOpenAITranscription_def)
  have b: "callback_texts (fst (snd (transcribeAudio s b (FetchRejects e)))) = []"
    by (simp add: transcribeAudio_def Let_def tryOpenAITranscription_def)
  show ?thesis
    by (intro conjI transcribeAudio_requests transcribeAudio_callbacks_le_requests a b
        transcribeAudio_thrown deliver_DataAvailable_thrown deliver_no_error)
qed


section \<open>Backend selection and the start of a session\<close>

lemma b_setLanguage_language:
  "b_language (b_setLanguage h lang s) = lang \<and> b_recognition (b_setLanguage h lang s) = b_recognition s"
  by (simp add: b_setLanguage_def updateRecognitionLanguage_def)

lemma new_Browser_recognition:
  "b_recognition (new_BrowserVoiceInputService h) = (webkitSpeechRecognition h \<or> SpeechRecognition h)"
  by (simp add: new_BrowserVoiceInputService_def initializeRecognition_def updateRecognitionLanguage_def Let_def)

lemma updateRecognitionLanguage_host:
  "updateRecognitionLanguage (h\<lparr>getUserMedia := g, audioSetup := a, recognitionStart := r\<rparr>) s =
     updateRecognitionLanguage h s"
  by (simp add: updateRecognitionLanguage_def)

lemma initializeRecognition_host:
  "initializeRecognition (h\<lparr>getUserMedia := g, audioSetup := a, recognitionStart := r\<rparr>) s =
     initializeRecognition h s"
  by (simp add: initializeRecognition_def updateRecognitionLanguage_host)

lemma no_recognition_error_not_microphone:
  "name no_recognition_error \<noteq> ''NotAllowedError''
   \<and> \<not> str_includes (message no_recognition_error) ''microphone''"
  by (simp add: no_recognition_error_def)

text \<open>
  Claim C8. The factory decides on two capabilities of the host. When \<open>window\<close> has a
  recognizer constructor, the on-device service is made, API key or not; otherwise,
  when the API key is a non-empty string, the cloud service is made with that key;
  otherwise the factory throws. A service it returns has the requested language. The
  decision does not depend on how the host's calls end. When the factory throws,
  \<open>startRecording\<close> of the hook fails: it reports \<open>Failed to start recording\<close> through
  the error callback and leaves \<open>isRecording\<close> as it was.
\<close>

theorem backend_selection:
  "(if webkitSpeechRecognition h \<or> SpeechRecognition h then
      \<exists>b. createVoiceInputService h lang = Inr (Browser b)
           \<and> service_getLanguage (Browser b) = lang \<and> b_recognition b
    else case VITE_OPENAI_API_KEY h of
           None \<Rightarrow> createVoiceInputService h lang = Inl no_recognition_error
         | Some k \<Rightarrow>
             if k = [] then createVoiceInputService h lang = Inl no_recognition_error
             else \<exists>s. createVoiceInputService h lang = Inr (OpenAI s)
                      \<and> service_getLanguage (OpenAI s) = lang \<and> o_apiKey s = k)
   \<and> createVoiceInputService (h\<lparr>getUserMedia := g, audioSetup := a, recognitionStart := r\<rparr>) lang =
       createVoiceInputService h lang
   \<and> (let bare = h\<lparr>webkitSpeechRecognition := False, SpeechRecognition := False,
                      VITE_OPENAI_API_KEY := None\<rparr>
      in snd (startRecording opts bare st) = [ErrorCallback ''Failed to start recording'']
         \<and> error (fst (startRecording opts bare st)) = Some ''Failed to start recording''
         \<and> \<not> permissionDenied (fst (startRecording opts bare st))
         \<and> isRecording (fst (startRecording opts bare st)) = isRecording st)"
proof -
  have sel: "(if webkitSpeechRecognition h \<or> SpeechRecognition h then
      \<exists>b. createVoiceInputService h lang = Inr (Browser b)
           \<and> service_getLanguage (Browser b) = lang \<and> b_recognition b
    else case VITE_OPENAI_API_KEY h of
           None \<Rightarrow> createVoiceInputService h lang = Inl no_recognition_error
         | Some k \<Rightarrow>
             if k = [] then createVoiceInputService h lang = Inl no_recognition_error
             else \<exists>s. createVoiceInputService h lang = Inr (OpenAI s)
                      \<and> service_getLanguage (OpenAI s) = lang \<and> o_apiKey s = k)"
    by (auto simp: createVoiceInputService_def b_getLanguage_def b_setLanguage_language
        new_Browser_recognition o_getLanguage_def o_setLanguage_def new_OpenAIVoiceInputService_def
        truthy_def split: option.splits)
  have pure: "createVoiceInputService (h\<lparr>getUserMedia := g, audioSetup := a, recognitionStart := r\<rparr>) lang =
       createVoiceInputService h lang"
    by (simp add: createVoiceInputService_def b_setLanguage_def new_BrowserVoiceInputService_def
        initializeRecognition_host updateRecognitionLanguage_host)
  have fail: "(let bare = h\<lparr>webkitSpeechRecognition := False, SpeechRecognition := False,
                      VITE_OPENAI_API_KEY := None\<rparr>
      in snd (startRecording opts bare st) = [ErrorCallback ''Failed to start recording'']
         \<and> error (fst (startRecording opts bare st)) = Some ''Failed to start recording''
         \<and> \<not> permissionDenied (fst (startRecording opts bare st))
         \<and> isRecording (fst (startRecording opts bare st)) = isRecording st)"
    using no_recognition_error_not_microphone
    by (simp add: startRecording_def Let_def createVoiceInputService_def startRecording_catch_def
        split: option.splits)
  from sel pure fail show ?thesis by blast
qed

lemma str_includes_self_prefix:
  "str_includes (sub @ post) sub"
proof (cases "sub @ post")
  case Nil
  then show ?thesis by simp
next
  case (Cons c cs)
  have "prefix sub (c # cs)"
    unfolding Cons [symmetric] by simp
  then show ?thesis
    unfolding Cons by simp
qed

lemma str_includes_append:
  "str_includes (pre @ sub @ post) sub"
proof (induction pre)
  case Nil
  show ?case using str_includes_self_prefix by simp
next
  case (Cons c pre)
  then show ?case by simp
qed

lemma failed_to_access_microphone:
  "str_includes ''Failed to access microphone'' ''microphone''"
  using str_includes_append [of "''Failed to access ''" "''microphone''" "[]"] by simp

text \<open>
  Claim C9. On a host where the cloud service is the one selected, a refused microphone
  makes the service's \<open>startRecording\<close> throw \<open>Failed to access microphone\<close>, and the
  hook's \<open>startRecording\<close> fails: \<open>permissionDenied\<close> becomes true, the error callback
  is called once, with \<open>Microphone permission denied\<close>, and \<open>isRecording\<close> is left as
  it was. The same holds for any caught error named \<open>NotAllowedError\<close>. A later
  \<open>startRecording\<close>, with the microphone granted, succeeds from the state the failure
  left.
\<close>

theorem permission_denied_start:
  assumes "\<not> webkitSpeechRecognition h" and "\<not> SpeechRecognition h"
    and "VITE_OPENAI_API_KEY h = Some k" and "k \<noteq> []"
    and "getUserMedia h = Some e"
  shows "permissionDenied (fst (startRecording opts h st))
     \<and> error (fst (startRecording opts h st)) = Some ''Microphone permission denied''
     \<and> snd (startRecording opts h st) = [ErrorCallback ''Microphone permission denied'']
     \<and> isRecording (fst (startRecording opts h st)) = isRecording st
     \<and> startRecording_catch st' (e'\<lparr>name := ''NotAllowedError''\<rparr>) =
         (st'\<lparr>permissionDenied := True, error := Some ''Microphone permission denied''\<rparr>,
          [ErrorCallback ''Microphone permission denied''])
     \<and> isRecording (fst (startRecording opts (h\<lparr>getUserMedia := None, audioSetup := None\<rparr>)
                        (fst (startRecording opts h st))))
     \<and> \<not> permissionDenied (fst (startRecording opts (h\<lparr>getUserMedia := None, audioSetup := None\<rparr>)
                        (fst (startRecording opts h st))))
     \<and> error (fst (startRecording opts (h\<lparr>getUserMedia := None, audioSetup := None\<rparr>)
                        (fst (startRecording opts h st)))) = None
     \<and> snd (startRecording opts (h\<lparr>getUserMedia := None, audioSetup := None\<rparr>)
                        (fst (startRecording opts h st))) = []"
proof -
  have create: "\<And>h' lang. h' = h \<or> h' = h\<lparr>getUserMedia := None, audioSetup := None\<rparr> \<Longrightarrow>
      createVoiceInputService h' lang = Inr (OpenAI (o_setLanguage lang (new_OpenAIVoiceInputService k)))"
    using assms(1-4) by (auto simp: createVoiceInputService_def truthy_def)
  have denied: "\<And>s. snd (snd (o_startRecording h s)) =
      Some \<lparr>name = ''Error'', message = ''Failed to access microphone''\<rparr>"
    using assms(5) by (simp add: o_startRecording_def Let_def)
  have granted: "\<And>s. snd (snd (o_startRecording (h\<lparr>getUserMedia := None, audioSetup := None\<rparr>) s)) = None"
    by (simp add: o_startRecording_def Let_def)
  have first: "startRecording opts h st =
     startRecording_catch
       ((fst (startRecording opts h st))\<lparr>permissionDenied := False, error := None\<rparr>)
       \<lparr>name = ''Error'', message = ''Failed to access microphone''\<rparr>"
    using denied assms(5)
    by (simp add: startRecording_def Let_def create startRecording_catch_def
        failed_to_access_microphone o_startRecording_def split: option.splits)
  have a: "permissionDenied (fst (startRecording opts h st))
     \<and> error (fst (startRecording opts h st)) = Some ''Microphone permission denied''
     \<and> snd (startRecording opts h st) = [ErrorCallback ''Microphone permission denied'']"
    by (subst first, subst first, subst first)
       (simp add: startRecording_catch_def failed_to_access_microphone)
  have b: "isRecording (fst (startRecording opts h st)) = isRecording st"
    using assms(5)
    by (simp add: startRecording_def Let_def create startRecording_catch_def
        failed_to_access_microphone o_startRecording_def split: option.splits)
  have c: "startRecording_catch st' (e'\<lparr>name := ''NotAllowedError''\<rparr>) =
         (st'\<lparr>permissionDenied := True, error := Some ''Microphone permission denied''\<rparr>,
          [ErrorCallback ''Microphone permission denied''])"
    by (simp add: startRecording_catch_def)
  let ?st1 = "fst (startRecording opts h st)"
  let ?h2 = "h\<lparr>getUserMedia := None, audioSetup := None\<rparr>"
  have d: "startRecording opts ?h2 ?st1 =
     ((fst (startRecording opts ?h2 ?st1))\<lparr>isRecording := True, permissionDenied := False, error := None\<rparr>, [])"
    by (simp add: startRecording_def [of opts ?h2] Let_def create o_startRecording_def
        split: option.splits)
  have e: "isRecording (fst (startRecording opts ?h2 ?st1))
     \<and> \<not> permissionDenied (fst (startRecording opts ?h2 ?st1))
     \<and> error (fst (startRecording opts ?h2 ?st1)) = None
     \<and> snd (startRecording opts ?h2 ?st1) = []"
    by (subst d, subst d, subst d, subst d) simp
  from a b c e show ?thesis by blast
qed

theorem permission_denied_start_witness:
  "\<not> webkitSpeechRecognition denied_cloud_host \<and> \<not> SpeechRecognition denied_cloud_host
   \<and> VITE_OPENAI_API_KEY denied_cloud_host = Some ''sk-test'' \<and> ''sk-test'' \<noteq> []
   \<and> getUserMedia denied_cloud_host = Some NotAllowedError
   \<and> permissionDenied (fst (startRecording default_options denied_cloud_host
                              (useVoiceTranscription default_options)))
   \<and> snd (startRecording default_options denied_cloud_host (useVoiceTranscription default_options)) =
       [ErrorCallback ''Microphone permission denied'']
   \<and> \<not> isRecording (fst (startRecording default_options denied_cloud_host
                              (useVoiceTranscription default_options)))
   \<and> isRecording (fst (startRecording default_options
                         (denied_cloud_host\<lparr>getUserMedia := None, audioSetup := None\<rparr>)
                         (fst (startRecording default_options denied_cloud_host
                                 (useVoiceTranscription default_options)))))"
proof -
  have h1: "\<not> webkitSpeechRecognition denied_cloud_host"
    and h2: "\<not> SpeechRecognition denied_cloud_host"
    and h3: "VITE_OPENAI_API_KEY denied_cloud_host = Some ''sk-test''"
    and h5: "getUserMedia denied_cloud_host = Some NotAllowedError"
    by (simp_all add: denied_cloud_host_def cloud_host_def)
  have h4: "''sk-test'' \<noteq> []" by simp
  have idle: "\<not> isRecording (useVoiceTranscription default_options)"
    by (simp add: useVoiceTranscription_def)
  from permission_denied_start [OF h1 h2 h3 h4 h5, of default_options
      "useVoiceTranscription default_options" "useVoiceTranscription default_options" NotAllowedError]
    h1 h2 h3 h4 h5 idle
  show ?thesis by simp
qed

text \<open>
  On a host where the on-device service is selected, a refused microphone does not make
  \<open>startRecording\<close> fail: the service catches the rejection of \<open>getUserMedia\<close> (it
  only costs the visualization) and the hook reports a running session.
\<close>

lemma browser_start_with_denied_microphone:
  "isRecording (fst (startRecording default_options (browser_host\<lparr>getUserMedia := Some NotAllowedError\<rparr>)
                       (useVoiceTranscription default_options)))
   \<and> \<not> permissionDenied (fst (startRecording default_options
                       (browser_host\<lparr>getUserMedia := Some NotAllowedError\<rparr>)
                       (useVoiceTranscription default_options)))
   \<and> snd (startRecording default_options (browser_host\<lparr>getUserMedia := Some NotAllowedError\<rparr>)
            (useVoiceTranscription default_options)) = []"
  by (simp add: startRecording_def useVoiceTranscription_def default_options_def browser_host_def
      createVoiceInputService_def b_setLanguage_def new_BrowserVoiceInputService_def
      initializeRecognition_def updateRecognitionLanguage_def b_startRecording_def truthy_def Let_def)

end
